theory Spec2Isabelle
  imports Complex_Main "HOL-Library.Monad_Syntax"
begin

section \<open>Data model (models.ts)\<close>

text \<open>
  JavaScript numbers that are prices, thresholds or sampling knobs are modelled as
  rationals, counters and token counts as integers or naturals, dates as integer
  milliseconds since the epoch.
\<close>

type_synonym date = int

datatype json =
    JNull
  | JBool bool
  | JNumber rat
  | JString string
  | JArray "json list"
  | JObject "(string \<times> json) list"

datatype ModelProvider = OpenAI | Anthropic | Google | MetaLlama | Mistral

datatype feature = Vision | FunctionCalling | ToolUse | Json

record SupportedFeatures =
  vision :: bool
  functionCalling :: bool
  toolUse :: bool
  json :: bool

record ModelInfo =
  modelId :: string
  provider :: ModelProvider
  modelName :: string
  contextWindow :: nat
  inputPricing :: rat
  outputPricing :: rat
  strengths :: "string list"
  supportedFeatures :: SupportedFeatures
  maxOutputTokens :: "nat option"

text \<open>\<open>model.supportedFeatures[feature]\<close>\<close>

fun featureFlag :: "SupportedFeatures \<Rightarrow> feature \<Rightarrow> bool" where
  "featureFlag sf Vision = vision sf"
| "featureFlag sf FunctionCalling = functionCalling sf"
| "featureFlag sf ToolUse = toolUse sf"
| "featureFlag sf Json = json sf"

definition mkModel ::
  "string \<Rightarrow> ModelProvider \<Rightarrow> string \<Rightarrow> nat \<Rightarrow> rat \<Rightarrow> rat \<Rightarrow> string list
     \<Rightarrow> bool \<Rightarrow> bool \<Rightarrow> bool \<Rightarrow> bool \<Rightarrow> nat \<Rightarrow> ModelInfo" where
  "mkModel i p n cw ip op ss v fc tu js mo =
     \<lparr> modelId = i, provider = p, modelName = n, contextWindow = cw,
       inputPricing = ip, outputPricing = op, strengths = ss,
       supportedFeatures = \<lparr> vision = v, functionCalling = fc, toolUse = tu, json = js \<rparr>,
       maxOutputTokens = Some mo \<rparr>"

text \<open>The catalog \<open>models\<close>, in the order the object literal lists its keys.\<close>

definition models :: "(string \<times> ModelInfo) list" where
  "models =
   [ (''openai/gpt-4o'',
        mkModel ''openai/gpt-4o'' OpenAI ''GPT-4o'' 128000 5 15
          [''multimodal'', ''reasoning'', ''creative'', ''code''] True True True True 4096),
     (''openai/gpt-4-turbo'',
        mkModel ''openai/gpt-4-turbo'' OpenAI ''GPT-4 Turbo'' 128000 10 30
          [''reasoning'', ''creative'', ''code''] False True False True 4096),
     (''openai/gpt-3.5-turbo'',
        mkModel ''openai/gpt-3.5-turbo'' OpenAI ''GPT-3.5 Turbo'' 16384 (1/2) (3/2)
          [''speed'', ''cost-effective''] False True False True 4096),
     (''anthropic/claude-3-opus'',
        mkModel ''anthropic/claude-3-opus'' Anthropic ''Claude 3 Opus'' 200000 15 75
          [''reasoning'', ''accuracy'', ''long-form''] True True True True 4096),
     (''anthropic/claude-3-sonnet'',
        mkModel ''anthropic/claude-3-sonnet'' Anthropic ''Claude 3 Sonnet'' 200000 3 15
          [''balanced'', ''versatile''] True True True True 4096),
     (''anthropic/claude-3-haiku'',
        mkModel ''anthropic/claude-3-haiku'' Anthropic ''Claude 3 Haiku'' 200000 (1/4) (5/4)
          [''speed'', ''cost-effective''] True True False True 4096),
     (''google/gemini-1.5-pro'',
        mkModel ''google/gemini-1.5-pro'' Google ''Gemini 1.5 Pro'' 1000000 7 21
          [''long-context'', ''multimodal''] True True True True 8192),
     (''google/gemini-1.5-flash'',
        mkModel ''google/gemini-1.5-flash'' Google ''Gemini 1.5 Flash'' 1000000 (3/2) 5
          [''speed'', ''cost-effective'', ''long-context''] True True False True 8192),
     (''meta-llama/llama-3-70b-instruct'',
        mkModel ''meta-llama/llama-3-70b-instruct'' MetaLlama ''Llama 3 70B Instruct'' 8192
          (9/10) (27/10) [''open-source'', ''cost-effective''] False False False False 4096) ]"

text \<open>
  \<open>models\<close> and the fallback table are plain object literals, read with \<open>obj[key]\<close>.
  Such a read also finds the members every object inherits from \<open>Object.prototype\<close>:
  under these twelve names it yields a function (or, for \<open>__proto__\<close>, the prototype
  object), which is truthy and has none of the properties of a catalog entry.
\<close>

definition objectPrototypeKeys :: "string list" where
  "objectPrototypeKeys =
     [''constructor'', ''__defineGetter__'', ''__defineSetter__'', ''hasOwnProperty'',
      ''__lookupGetter__'', ''__lookupSetter__'', ''isPrototypeOf'',
      ''propertyIsEnumerable'', ''toString'', ''valueOf'', ''__proto__'',
      ''toLocaleString'']"

datatype model_lookup = CatalogEntry ModelInfo | InheritedMember | NoEntry

definition getModelById :: "string \<Rightarrow> model_lookup" where
  "getModelById i =
     (case map_of models i of
        Some info \<Rightarrow> CatalogEntry info
      | None \<Rightarrow> if i \<in> set objectPrototypeKeys then InheritedMember else NoEntry)"

definition fallbackMap :: "(string \<times> string list) list" where
  "fallbackMap =
   [ (''openai/gpt-4o'',
        [''anthropic/claude-3-opus'', ''openai/gpt-4-turbo'', ''google/gemini-1.5-pro'']),
     (''anthropic/claude-3-opus'',
        [''openai/gpt-4o'', ''anthropic/claude-3-sonnet'', ''google/gemini-1.5-pro'']),
     (''google/gemini-1.5-pro'',
        [''openai/gpt-4o'', ''anthropic/claude-3-opus'', ''anthropic/claude-3-sonnet'']),
     (''anthropic/claude-3-sonnet'',
        [''anthropic/claude-3-haiku'', ''openai/gpt-3.5-turbo'',
         ''meta-llama/llama-3-70b-instruct'']),
     (''openai/gpt-3.5-turbo'',
        [''anthropic/claude-3-haiku'', ''meta-llama/llama-3-70b-instruct'',
         ''google/gemini-1.5-flash'']),
     (''anthropic/claude-3-haiku'',
        [''openai/gpt-3.5-turbo'', ''meta-llama/llama-3-70b-instruct'',
         ''google/gemini-1.5-flash'']) ]"

text \<open>
  \<open>fallbackMap[modelId] || []\<close>: the list of the table, the empty list for an unknown
  id, and for an inherited name the inherited member itself, which is not an array.
\<close>

datatype fallback_lookup = FallbackList "string list" | NotAnArray

definition getRecommendedFallbacks :: "string \<Rightarrow> fallback_lookup" where
  "getRecommendedFallbacks m =
     (case map_of fallbackMap m of
        Some fs \<Rightarrow> FallbackList fs
      | None \<Rightarrow> if m \<in> set objectPrototypeKeys then NotAnArray else FallbackList [])"

subsection \<open>Requests\<close>

datatype role = System | User | Assistant

datatype part_type = PText | PImageUrl

datatype detail = Low | High | Auto

record ImageUrl =
  url :: string
  detail :: "detail option"

record ContentPart =
  partType :: part_type
  partText :: "string option"
  image_url :: "ImageUrl option"

datatype content = ContentString string | ContentParts "ContentPart list"

record ChatMessage =
  role :: role
  content :: content
  msgName :: "string option"

datatype stop = StopString string | StopList "string list"

record FunctionDecl =
  fnName :: string
  fnDescription :: "string option"
  fnParameters :: "(string \<times> json) list option"

datatype function_call = CallString string | CallObject string

record ToolFunction =
  tfName :: string
  tfDescription :: "string option"
  tfParameters :: "(string \<times> json) list"

record ToolDecl =
  toolType :: string
  toolFunction :: ToolFunction

datatype RoutingStrategy = Default | Fallback | LowestCost | Fastest | HighestQuality

datatype format_type = FormatText | FormatJsonObject

record ResponseFormat =
  formatType :: "format_type option"

text \<open>
  \<open>ModelRequest\<close>, the type inferred from \<open>ModelRequestSchema\<close>: an optional key is an
  \<open>option\<close>, \<open>None\<close> when the key is absent.
\<close>

record ModelRequest =
  model :: string
  messages :: "ChatMessage list"
  temperature :: "rat option"
  max_tokens :: "int option"
  top_p :: "rat option"
  stream :: "bool option"
  stop :: "stop option"
  frequency_penalty :: "rat option"
  presence_penalty :: "rat option"
  functions_decl :: "FunctionDecl list option"
  function_call :: "function_call option"
  tools :: "ToolDecl list option"
  route :: "RoutingStrategy option"
  fallbacks :: "string list option"
  response_format :: "ResponseFormat option"

text \<open>
  What is thrown: an \<open>Error\<close> the code creates, or a \<open>TypeError\<close> of the runtime, each
  with its message (the runtime's messages as V8 words them). And the error answer of a
  route handler: the HTTP status and the \<open>error\<close> text of the JSON body.
\<close>

datatype error = Error string | TypeError string

definition errorName :: "error \<Rightarrow> string" where
  "errorName e = (case e of Error msg \<Rightarrow> ''Error'' | TypeError msg \<Rightarrow> ''TypeError'')"

definition errorMessage :: "error \<Rightarrow> string" where
  "errorMessage e = (case e of Error msg \<Rightarrow> msg | TypeError msg \<Rightarrow> msg)"

type_synonym http_error = "nat \<times> string"

section \<open>Router (model-router.ts)\<close>

text \<open>
  \<open>isModelAvailable\<close> draws \<open>Math.random()\<close> and compares it with 0.8 for the two
  low-availability models and with 0.95 for the others. The draws are a sequence
  \<open>rnd\<close>; each probe consumes the next one, so the router threads the index of the
  next draw. The \<open>options\<close> argument (timeout, retries) is passed along by the source
  and read nowhere, so it is left out.
\<close>

definition lowAvailabilityModels :: "string list" where
  "lowAvailabilityModels = [''openai/gpt-4'', ''anthropic/claude-3-opus'']"

definition isModelAvailable :: "(nat \<Rightarrow> rat) \<Rightarrow> nat \<Rightarrow> string \<Rightarrow> bool \<times> nat" where
  "isModelAvailable rnd n m =
     (let availability = (if m \<in> set lowAvailabilityModels then 4 / 5 else 19 / 20)
      in (rnd n < availability, Suc n))"

text \<open>
  \<open>modelSupportsFeatures\<close>: \<open>false\<close> when the lookup is falsy; otherwise the loop reads
  \<open>model.supportedFeatures[feature]\<close> for each required feature. On an inherited member
  \<open>supportedFeatures\<close> is \<open>undefined\<close>, so the first read throws; with no feature
  required the loop body never runs and the answer is \<open>true\<close>.
\<close>

fun featureKey :: "feature \<Rightarrow> string" where
  "featureKey Vision = ''vision''"
| "featureKey FunctionCalling = ''functionCalling''"
| "featureKey ToolUse = ''toolUse''"
| "featureKey Json = ''json''"

definition quoted :: "string \<Rightarrow> string" where
  "quoted s = [CHR 0x27] @ s @ [CHR 0x27]"

definition modelSupportsFeatures :: "string \<Rightarrow> feature list \<Rightarrow> error + bool" where
  "modelSupportsFeatures m requiredFeatures =
     (case getModelById m of
        NoEntry \<Rightarrow> Inr False
      | InheritedMember \<Rightarrow>
          (case requiredFeatures of
             [] \<Rightarrow> Inr True
           | f # fs \<Rightarrow>
               Inl (TypeError (''Cannot read properties of undefined (reading ''
                               @ quoted (featureKey f) @ '')'')))
      | CatalogEntry info \<Rightarrow>
          Inr (list_all (\<lambda>f. featureFlag (supportedFeatures info) f) requiredFeatures))"

definition hasImageContent :: "ModelRequest \<Rightarrow> bool" where
  "hasImageContent request =
     list_ex (\<lambda>message. case content message of
                 ContentString s \<Rightarrow> False
               | ContentParts ps \<Rightarrow> list_ex (\<lambda>c. partType c = PImageUrl) ps)
       (messages request)"

text \<open>
  Truthiness of \<open>request.functions?.length\<close>, \<open>request.function_call\<close> (a string is
  truthy unless it is empty, an object always) and \<open>request.tools?.length\<close>.
\<close>

definition lengthTruthy :: "'a list option \<Rightarrow> bool" where
  "lengthTruthy xs = (case xs of None \<Rightarrow> False | Some ys \<Rightarrow> ys \<noteq> [])"

definition functionCallTruthy :: "function_call option \<Rightarrow> bool" where
  "functionCallTruthy fc =
     (case fc of None \<Rightarrow> False | Some (CallString s) \<Rightarrow> s \<noteq> [] | Some (CallObject n) \<Rightarrow> True)"

definition wantsJson :: "ModelRequest \<Rightarrow> bool" where
  "wantsJson request =
     (case response_format request of
        None \<Rightarrow> False
      | Some rf \<Rightarrow> formatType rf = Some FormatJsonObject)"

text \<open>The required features, in the order the source adds them to the set.\<close>

definition getRequiredFeatures :: "ModelRequest \<Rightarrow> feature list" where
  "getRequiredFeatures request =
     (if hasImageContent request then [Vision] else []) @
     (if lengthTruthy (functions_decl request) \<or> functionCallTruthy (function_call request)
      then [FunctionCalling] else []) @
     (if lengthTruthy (tools request) then [ToolUse] else []) @
     (if wantsJson request then [Json] else [])"

text \<open>
  The loop \<open>for (const id of ids) if (await isModelAvailable(id) && supports(id)) return id\<close>:
  the probe comes first, so it is made for every candidate reached, and the feature
  check is made only for a candidate found available. An error thrown by the check ends
  the loop.
\<close>

fun firstAvailableSupporting ::
  "(nat \<Rightarrow> rat) \<Rightarrow> nat \<Rightarrow> feature list \<Rightarrow> string list \<Rightarrow> (error + string option) \<times> nat" where
  "firstAvailableSupporting rnd n rf [] = (Inr None, n)"
| "firstAvailableSupporting rnd n rf (m # ms) =
     (case isModelAvailable rnd n m of
        (up, n') \<Rightarrow>
          if up then
            (case modelSupportsFeatures m rf of
               Inl e \<Rightarrow> (Inl e, n')
             | Inr ok \<Rightarrow>
                 if ok then (Inr (Some m), n') else firstAvailableSupporting rnd n' rf ms)
          else firstAvailableSupporting rnd n' rf ms)"

text \<open>The loop of \<open>findLowestCostModel\<close>, which probes only.\<close>

fun firstAvailable :: "(nat \<Rightarrow> rat) \<Rightarrow> nat \<Rightarrow> string list \<Rightarrow> string option \<times> nat" where
  "firstAvailable rnd n [] = (None, n)"
| "firstAvailable rnd n (m # ms) =
     (case isModelAvailable rnd n m of
        (up, n') \<Rightarrow> if up then (Some m, n') else firstAvailable rnd n' ms)"

text \<open>\<open>Array.prototype.filter\<close> with a predicate that may throw.\<close>

fun filterThrowing :: "('a \<Rightarrow> error + bool) \<Rightarrow> 'a list \<Rightarrow> error + 'a list" where
  "filterThrowing p [] = Inr []"
| "filterThrowing p (x # xs) =
     (case p x of
        Inl e \<Rightarrow> Inl e
      | Inr keep \<Rightarrow>
          (case filterThrowing p xs of
             Inl e \<Rightarrow> Inl e
           | Inr ys \<Rightarrow> Inr (if keep then x # ys else ys)))"

text \<open>The end of a strategy: the model found, or the \<open>Error\<close> thrown when none was.\<close>

definition orThrow :: "string \<Rightarrow> (error + string option) \<times> nat \<Rightarrow> (error + string) \<times> nat" where
  "orThrow msg r =
     (case r of
        (Inl e, n) \<Rightarrow> (Inl e, n)
      | (Inr None, n) \<Rightarrow> (Inl (Error msg), n)
      | (Inr (Some m), n) \<Rightarrow> (Inr m, n))"

text \<open>
  \<open>handleFallbackRouting\<close>. Its \<open>fallbacks\<close> argument is what the caller passes: an
  array, or the inherited member \<open>getRecommendedFallbacks\<close> returned, on which
  \<open>for ... of\<close> throws.
\<close>

definition handleFallbackRouting ::
  "(nat \<Rightarrow> rat) \<Rightarrow> nat \<Rightarrow> string \<Rightarrow> fallback_lookup \<Rightarrow> feature list
     \<Rightarrow> (error + string) \<times> nat" where
  "handleFallbackRouting rnd n primaryModel fallbackArg rf =
     (case firstAvailableSupporting rnd n rf [primaryModel] of
        (Inl e, n1) \<Rightarrow> (Inl e, n1)
      | (Inr (Some m), n1) \<Rightarrow> (Inr m, n1)
      | (Inr None, n1) \<Rightarrow>
          (case fallbackArg of
             NotAnArray \<Rightarrow> (Inl (TypeError ''fallbacks is not iterable''), n1)
           | FallbackList fbs \<Rightarrow>
               (case firstAvailableSupporting rnd n1 rf fbs of
                  (Inl e, n2) \<Rightarrow> (Inl e, n2)
                | (Inr (Some m), n2) \<Rightarrow> (Inr m, n2)
                | (Inr None, n2) \<Rightarrow>
                    (let availableModels =
                           filter (\<lambda>i. i \<noteq> primaryModel \<and> i \<notin> set fbs) (map fst models)
                     in orThrow ''No available models found that match requirements''
                          (firstAvailableSupporting rnd n2 rf availableModels)))))"

definition findLowestCostModel ::
  "(nat \<Rightarrow> rat) \<Rightarrow> nat \<Rightarrow> feature list \<Rightarrow> (error + string) \<times> nat" where
  "findLowestCostModel rnd n rf =
     (case filterThrowing (\<lambda>m. modelSupportsFeatures (modelId m) rf) (map snd models) of
        Inl e \<Rightarrow> (Inl e, n)
      | Inr eligible \<Rightarrow>
          (let modelsByCost = sort_key (\<lambda>m. inputPricing m + outputPricing m) eligible
           in case firstAvailable rnd n (map modelId modelsByCost) of
                (found, n') \<Rightarrow>
                  orThrow ''No available low-cost models found that match requirements''
                    (Inr found, n')))"

definition fastestModels :: "string list" where
  "fastestModels =
     [''anthropic/claude-3-haiku'', ''openai/gpt-3.5-turbo'', ''google/gemini-1.5-flash'',
      ''meta-llama/llama-3-70b-instruct'', ''anthropic/claude-3-sonnet'', ''openai/gpt-4o'',
      ''google/gemini-1.5-pro'', ''anthropic/claude-3-opus'']"

definition findFastestModel ::
  "(nat \<Rightarrow> rat) \<Rightarrow> nat \<Rightarrow> feature list \<Rightarrow> (error + string) \<times> nat" where
  "findFastestModel rnd n rf =
     orThrow ''No available fast models found that match requirements''
       (firstAvailableSupporting rnd n rf fastestModels)"

definition highestQualityModels :: "string list" where
  "highestQualityModels =
     [''anthropic/claude-3-opus'', ''openai/gpt-4o'', ''google/gemini-1.5-pro'',
      ''openai/gpt-4-turbo'', ''anthropic/claude-3-sonnet'', ''google/gemini-1.5-flash'',
      ''meta-llama/llama-3-70b-instruct'', ''anthropic/claude-3-haiku'',
      ''openai/gpt-3.5-turbo'']"

definition findHighestQualityModel ::
  "(nat \<Rightarrow> rat) \<Rightarrow> nat \<Rightarrow> feature list \<Rightarrow> (error + string) \<times> nat" where
  "findHighestQualityModel rnd n rf =
     orThrow ''No available high quality models found that match requirements''
       (firstAvailableSupporting rnd n rf highestQualityModels)"

text \<open>
  \<open>getRecommendedFallbacksForFeatures\<close>: \<open>standardFallbacks.filter(...)\<close>, which throws
  when \<open>standardFallbacks\<close> is an inherited member.
\<close>

definition getRecommendedFallbacksForFeatures :: "string \<Rightarrow> feature list \<Rightarrow> error + string list" where
  "getRecommendedFallbacksForFeatures m rf =
     (case getRecommendedFallbacks m of
        NotAnArray \<Rightarrow> Inl (TypeError ''standardFallbacks.filter is not a function'')
      | FallbackList standardFallbacks \<Rightarrow>
          filterThrowing (\<lambda>fallbackId. modelSupportsFeatures fallbackId rf) standardFallbacks)"

definition routeRequest :: "(nat \<Rightarrow> rat) \<Rightarrow> nat \<Rightarrow> ModelRequest \<Rightarrow> (error + string) \<times> nat" where
  "routeRequest rnd n request =
     (let m = model request;
          rt = (case route request of None \<Rightarrow> Default | Some r \<Rightarrow> r);
          fbs = (case fallbacks request of None \<Rightarrow> [] | Some fs \<Rightarrow> fs);
          requiredFeatures = getRequiredFeatures request
      in case rt of
           Fallback \<Rightarrow> handleFallbackRouting rnd n m (FallbackList fbs) requiredFeatures
         | LowestCost \<Rightarrow> findLowestCostModel rnd n requiredFeatures
         | Fastest \<Rightarrow> findFastestModel rnd n requiredFeatures
         | HighestQuality \<Rightarrow> findHighestQualityModel rnd n requiredFeatures
         | Default \<Rightarrow>
             (case isModelAvailable rnd n m of
                (up, n') \<Rightarrow>
                  if up then
                    (case modelSupportsFeatures m requiredFeatures of
                       Inl e \<Rightarrow> (Inl e, n')
                     | Inr ok \<Rightarrow>
                         if ok then (Inr m, n')
                         else
                           (case getRecommendedFallbacksForFeatures m requiredFeatures of
                              Inl e \<Rightarrow> (Inl e, n')
                            | Inr recommended \<Rightarrow>
                                handleFallbackRouting rnd n' m (FallbackList recommended)
                                  requiredFeatures))
                  else handleFallbackRouting rnd n' m
                         (if fbs \<noteq> [] then FallbackList fbs else getRecommendedFallbacks m)
                         requiredFeatures))"

section \<open>Custom endpoints (custom-endpoints.ts)\<close>

record EndpointParameters =
  paramTemperature :: "rat option"
  paramMaxTokens :: "int option"
  paramTopP :: "rat option"
  paramFrequencyPenalty :: "rat option"
  paramPresencePenalty :: "rat option"

record RateLimit =
  requestsPerMinute :: "int option"
  tokensPerMinute :: "int option"

record CustomEndpointConfig =
  endpointId :: string
  endpointName :: string
  description :: "string option"
  baseModel :: string
  endpointFallbacks :: "string list"
  routingStrategy :: RoutingStrategy
  parameters :: EndpointParameters
  systemPrompt :: "string option"
  createdAt :: date
  updatedAt :: date
  owner :: string
  isPublic :: bool
  apiKey :: "string option"
  rateLimit :: "RateLimit option"

text \<open>
  The \<open>input\<close> of \<open>updateEndpoint\<close> is declared \<open>Partial<CustomEndpointInput>\<close>, and
  the declaration is not checked at run time: the only caller, the \<open>PUT\<close> handler of
  the endpoints route, passes the parsed request body as it came. So the input is an
  object that may hold any key of a stored endpoint, \<open>id\<close>, \<open>owner\<close> and the two
  dates included; \<open>None\<close> is an absent key. (Keys a stored endpoint does not have, and
  values of a wrong type, are outside this model.)
\<close>

record EndpointUpdate =
  upId :: "string option"
  upName :: "string option"
  upDescription :: "string option"
  upBaseModel :: "string option"
  upFallbacks :: "string list option"
  upRoutingStrategy :: "RoutingStrategy option"
  upParameters :: "EndpointParameters option"
  upSystemPrompt :: "string option"
  upCreatedAt :: "date option"
  upUpdatedAt :: "date option"
  upOwner :: "string option"
  upIsPublic :: "bool option"
  upApiKey :: "string option"
  upRateLimit :: "RateLimit option"

type_synonym endpoint_store = "string \<rightharpoonup> CustomEndpointConfig"

definition getEndpoint :: "endpoint_store \<Rightarrow> string \<Rightarrow> CustomEndpointConfig option" where
  "getEndpoint endpoints i = endpoints i"

text \<open>
  The object spread \<open>{...endpoint, ...input}\<close>: a key present in \<open>input\<close> replaces the
  value of \<open>endpoint\<close>, an absent key leaves it.
\<close>

definition spreadKey :: "'a \<Rightarrow> 'a option \<Rightarrow> 'a" where
  "spreadKey old new = (case new of None \<Rightarrow> old | Some v \<Rightarrow> v)"

definition spreadOptionalKey :: "'a option \<Rightarrow> 'a option \<Rightarrow> 'a option" where
  "spreadOptionalKey old new = (case new of None \<Rightarrow> old | Some v \<Rightarrow> Some v)"

definition spreadEndpoint :: "CustomEndpointConfig \<Rightarrow> EndpointUpdate \<Rightarrow> CustomEndpointConfig" where
  "spreadEndpoint endpoint input =
     \<lparr> endpointId = spreadKey (endpointId endpoint) (upId input),
       endpointName = spreadKey (endpointName endpoint) (upName input),
       description = spreadOptionalKey (description endpoint) (upDescription input),
       baseModel = spreadKey (baseModel endpoint) (upBaseModel input),
       endpointFallbacks = spreadKey (endpointFallbacks endpoint) (upFallbacks input),
       routingStrategy = spreadKey (routingStrategy endpoint) (upRoutingStrategy input),
       parameters = spreadKey (parameters endpoint) (upParameters input),
       systemPrompt = spreadOptionalKey (systemPrompt endpoint) (upSystemPrompt input),
       createdAt = spreadKey (createdAt endpoint) (upCreatedAt input),
       updatedAt = spreadKey (updatedAt endpoint) (upUpdatedAt input),
       owner = spreadKey (owner endpoint) (upOwner input),
       isPublic = spreadKey (isPublic endpoint) (upIsPublic input),
       apiKey = spreadOptionalKey (apiKey endpoint) (upApiKey input),
       rateLimit = spreadOptionalKey (rateLimit endpoint) (upRateLimit input) \<rparr>"

text \<open>
  \<open>updateEndpoint\<close>: \<open>{ ...endpoint, ...input, updatedAt: new Date() }\<close>. Only
  \<open>updatedAt\<close> is written after the spread of the input.
\<close>

definition updateEndpoint ::
  "endpoint_store \<Rightarrow> string \<Rightarrow> EndpointUpdate \<Rightarrow> string \<Rightarrow> date
     \<Rightarrow> CustomEndpointConfig option \<times> endpoint_store" where
  "updateEndpoint endpoints i input ownerId now =
     (case endpoints i of
        None \<Rightarrow> (None, endpoints)
      | Some endpoint \<Rightarrow>
          if owner endpoint \<noteq> ownerId then (None, endpoints)
          else
            (let updatedEndpoint = (spreadEndpoint endpoint input)\<lparr> updatedAt := now \<rparr>
             in (Some updatedEndpoint, endpoints(i \<mapsto> updatedEndpoint))))"

definition deleteEndpoint :: "endpoint_store \<Rightarrow> string \<Rightarrow> string \<Rightarrow> bool \<times> endpoint_store" where
  "deleteEndpoint endpoints i ownerId =
     (case endpoints i of
        None \<Rightarrow> (False, endpoints)
      | Some endpoint \<Rightarrow>
          if owner endpoint \<noteq> ownerId then (False, endpoints)
          else (True, endpoints(i := None)))"

text \<open>
  \<open>applyEndpointToRequest(endpointId, request)\<close>. It has no caller argument. A string
  is truthy unless empty (\<open>endpoint.systemPrompt &&\<close>). In a \<open>ModelRequest\<close> the
  \<open>messages\<close> key is an array, which is truthy, so of the test
  \<open>!modifiedRequest.messages || !modifiedRequest.messages.some(...)\<close> the second
  disjunct decides; likewise \<open>endpoint.parameters\<close> is an object. The four commented
  blocks of the source are one definition each.
\<close>

definition promptTruthy :: "string option \<Rightarrow> bool" where
  "promptTruthy p = (case p of None \<Rightarrow> False | Some s \<Rightarrow> s \<noteq> [])"

definition defaultKnob :: "'a option \<Rightarrow> 'a option \<Rightarrow> 'a option" where
  "defaultKnob preset requested =
     (if preset \<noteq> None \<and> requested = None then preset else requested)"

definition applyBaseModel :: "CustomEndpointConfig \<Rightarrow> ModelRequest \<Rightarrow> ModelRequest" where
  "applyBaseModel endpoint request =
     request\<lparr> model := baseModel endpoint, route := Some (routingStrategy endpoint) \<rparr>"

definition applyFallbacks :: "CustomEndpointConfig \<Rightarrow> ModelRequest \<Rightarrow> ModelRequest" where
  "applyFallbacks endpoint r =
     (if fallbacks r = None \<and> endpointFallbacks endpoint \<noteq> []
      then r\<lparr> fallbacks := Some (endpointFallbacks endpoint) \<rparr> else r)"

definition applySystemPrompt :: "CustomEndpointConfig \<Rightarrow> ModelRequest \<Rightarrow> ModelRequest" where
  "applySystemPrompt endpoint r =
     (if promptTruthy (systemPrompt endpoint) \<and> \<not> list_ex (\<lambda>m. role m = System) (messages r)
      then r\<lparr> messages :=
             \<lparr> role = System, content = ContentString (the (systemPrompt endpoint)),
               msgName = None \<rparr> # messages r \<rparr>
      else r)"

definition applyParameters :: "EndpointParameters \<Rightarrow> ModelRequest \<Rightarrow> ModelRequest" where
  "applyParameters p r =
     r\<lparr> temperature := defaultKnob (paramTemperature p) (temperature r),
        max_tokens := defaultKnob (paramMaxTokens p) (max_tokens r),
        top_p := defaultKnob (paramTopP p) (top_p r),
        frequency_penalty := defaultKnob (paramFrequencyPenalty p) (frequency_penalty r),
        presence_penalty := defaultKnob (paramPresencePenalty p) (presence_penalty r) \<rparr>"

definition applyEndpointToRequest ::
  "endpoint_store \<Rightarrow> string \<Rightarrow> ModelRequest \<Rightarrow> ModelRequest option" where
  "applyEndpointToRequest endpoints i request =
     (case endpoints i of
        None \<Rightarrow> None
      | Some endpoint \<Rightarrow>
          Some (applyParameters (parameters endpoint)
                 (applySystemPrompt endpoint
                   (applyFallbacks endpoint
                     (applyBaseModel endpoint request)))))"

text \<open>
  The two readers of the endpoints route: \<open>listEndpoints\<close> and the \<open>GET ?id=\<close> handler,
  which answers 404 unless the caller owns the endpoint or the endpoint is public.
\<close>

definition endpointsGET ::
  "endpoint_store \<Rightarrow> string \<Rightarrow> string \<Rightarrow> http_error + CustomEndpointConfig" where
  "endpointsGET endpoints userId i =
     (case getEndpoint endpoints i of
        None \<Rightarrow> Inl (404, ''Endpoint not found or access denied'')
      | Some endpoint \<Rightarrow>
          if owner endpoint \<noteq> userId \<and> \<not> isPublic endpoint
          then Inl (404, ''Endpoint not found or access denied'')
          else Inr endpoint)"

text \<open>
  The endpoint branch of the chat route (\<open>POST\<close>, the \<open>if (endpointId)\<close> arm): the
  caller's id is at hand but is not passed on; a \<open>null\<close> from the rewriter is answered
  with status 400.
\<close>

definition chatEndpointBranch ::
  "endpoint_store \<Rightarrow> string \<Rightarrow> string \<Rightarrow> ModelRequest \<Rightarrow> http_error + ModelRequest" where
  "chatEndpointBranch endpoints userId i body =
     (case applyEndpointToRequest endpoints i body of
        None \<Rightarrow> Inl (400, ''Invalid endpoint ID'')
      | Some modelRequest \<Rightarrow> Inr modelRequest)"

text \<open>
  The \<open>PUT\<close> handler of the endpoints route: the body must hold a truthy \<open>id\<close>; the
  whole body is then the input of \<open>updateEndpoint\<close>.
\<close>

definition endpointsPUT ::
  "endpoint_store \<Rightarrow> string \<Rightarrow> date \<Rightarrow> EndpointUpdate
     \<Rightarrow> (http_error + CustomEndpointConfig) \<times> endpoint_store" where
  "endpointsPUT endpoints userId now body =
     (case upId body of
        None \<Rightarrow> (Inl (400, ''Endpoint ID is required''), endpoints)
      | Some i \<Rightarrow>
          if i = [] then (Inl (400, ''Endpoint ID is required''), endpoints)
          else
            (case updateEndpoint endpoints i body userId now of
               (None, endpoints') \<Rightarrow>
                 (Inl (404, ''Endpoint not found or access denied''), endpoints')
             | (Some endpoint, endpoints') \<Rightarrow> (Inr endpoint, endpoints')))"


section \<open>Response cache (cache-manager.ts)\<close>

subsection \<open>Responses\<close>

record Usage =
  prompt_tokens :: int
  completion_tokens :: int
  total_tokens :: int

record Choice =
  choiceIndex :: nat
  choiceRole :: role
  choiceContent :: string
  finish_reason :: string

text \<open>The OpenAI-shaped response object both pipelines build; it has no \<open>error\<close> key.\<close>

record ModelResponse =
  responseId :: string
  object :: string
  created :: int
  responseModel :: string
  choices :: "Choice list"
  usage :: Usage
  routed_through :: string

record TokenUsage =
  tokensInput :: int
  tokensOutput :: int
  tokensTotal :: int

subsection \<open>Cache entries and options\<close>

record CachedResponse =
  cachedModelId :: string
  response :: ModelResponse
  cachedAt :: date
  expiresAt :: date
  tokenUsage :: TokenUsage

datatype key_strategy = Exact | Semantic

text \<open>\<open>CacheOptions\<close>; the three flags are optional keys, read by truthiness.\<close>

record CacheOptions =
  ttl :: int
  keyStrategy :: key_strategy
  ignoreTemperature :: "bool option"
  ignoreTopP :: "bool option"
  cachingEnabled :: "bool option"

record PartialCacheOptions =
  optTtl :: "int option"
  optKeyStrategy :: "key_strategy option"
  optIgnoreTemperature :: "bool option"
  optIgnoreTopP :: "bool option"
  optCachingEnabled :: "bool option"

definition DEFAULT_CACHE_OPTIONS :: CacheOptions where
  "DEFAULT_CACHE_OPTIONS =
     \<lparr> ttl = 3600000, keyStrategy = Exact, ignoreTemperature = Some False,
       ignoreTopP = Some False, cachingEnabled = Some True \<rparr>"

text \<open>\<open>{ ...this.defaultOptions, ...options }\<close>, with \<open>options\<close> possibly \<open>undefined\<close>.\<close>

definition mergeOptions :: "CacheOptions \<Rightarrow> PartialCacheOptions option \<Rightarrow> CacheOptions" where
  "mergeOptions defaults options =
     (case options of
        None \<Rightarrow> defaults
      | Some opts \<Rightarrow>
          \<lparr> ttl = spreadKey (ttl defaults) (optTtl opts),
            keyStrategy = spreadKey (keyStrategy defaults) (optKeyStrategy opts),
            ignoreTemperature =
              spreadOptionalKey (ignoreTemperature defaults) (optIgnoreTemperature opts),
            ignoreTopP = spreadOptionalKey (ignoreTopP defaults) (optIgnoreTopP opts),
            cachingEnabled =
              spreadOptionalKey (cachingEnabled defaults) (optCachingEnabled opts) \<rparr>)"

definition flagTruthy :: "bool option \<Rightarrow> bool" where
  "flagTruthy b = (b = Some True)"

record CacheManager =
  cache :: "string \<rightharpoonup> CachedResponse"
  defaultOptions :: CacheOptions

subsection \<open>Key generation\<close>

text \<open>
  Two library functions are parameters of the model: \<open>digest\<close> stands for
  \<open>createHash('sha256').update(JSON.stringify(x)).digest('hex')\<close> on the normalised
  request, and \<open>comesFirst a b\<close> for the comparator of the message sort returning a
  value \<open>\<le> 0\<close> (\<open>localeCompare\<close> on the roles, then on the JSON texts).
\<close>

record platform =
  digest :: "ModelRequest \<Rightarrow> string"
  comesFirst :: "ChatMessage \<Rightarrow> ChatMessage \<Rightarrow> bool"

fun insertBy :: "('a \<Rightarrow> 'a \<Rightarrow> bool) \<Rightarrow> 'a \<Rightarrow> 'a list \<Rightarrow> 'a list" where
  "insertBy le x [] = [x]"
| "insertBy le x (y # ys) = (if le x y then x # y # ys else y # insertBy le x ys)"

definition sortBy :: "('a \<Rightarrow> 'a \<Rightarrow> bool) \<Rightarrow> 'a list \<Rightarrow> 'a list" where
  "sortBy le xs = foldr (insertBy le) xs []"

text \<open>\<open>toLowerCase()\<close> and \<open>trim()\<close> on the characters of the model (bytes).\<close>

definition lowerChar :: "char \<Rightarrow> char" where
  "lowerChar c =
     (let n = (of_char c :: nat) in if 65 \<le> n \<and> n \<le> 90 then char_of (n + 32) else c)"

definition isSpace :: "char \<Rightarrow> bool" where
  "isSpace c = (let n = (of_char c :: nat) in n = 32 \<or> (9 \<le> n \<and> n \<le> 13))"

definition trim :: "string \<Rightarrow> string" where
  "trim s = rev (dropWhile isSpace (rev (dropWhile isSpace s)))"

definition semanticMessage :: "ChatMessage \<Rightarrow> ChatMessage" where
  "semanticMessage m =
     \<lparr> role = role m,
       content = (case content m of
                    ContentString s \<Rightarrow> ContentString (trim (map lowerChar s))
                  | ContentParts ps \<Rightarrow> ContentParts ps),
       msgName = None \<rparr>"

definition normalizeRequest :: "platform \<Rightarrow> ModelRequest \<Rightarrow> CacheOptions \<Rightarrow> ModelRequest" where
  "normalizeRequest pf request options =
     (let n1 = request\<lparr> stream := None \<rparr>;
          n2 = (if flagTruthy (ignoreTemperature options) then n1\<lparr> temperature := None \<rparr>
                else n1);
          n3 = (if flagTruthy (ignoreTopP options) then n2\<lparr> top_p := None \<rparr> else n2);
          n4 = n3\<lparr> messages := sortBy (comesFirst pf) (messages n3) \<rparr>
      in if keyStrategy options = Semantic
         then n4\<lparr> messages := map semanticMessage
                                  (filter (\<lambda>m. role m = User) (messages n4)) \<rparr>
         else n4)"

definition generateCacheKey :: "platform \<Rightarrow> ModelRequest \<Rightarrow> CacheOptions \<Rightarrow> string" where
  "generateCacheKey pf request options = digest pf (normalizeRequest pf request options)"

subsection \<open>Lookup, store, sweep\<close>

text \<open>\<open>now\<close> is the value of \<open>new Date()\<close> read by the call.\<close>

definition getCachedResponse ::
  "platform \<Rightarrow> date \<Rightarrow> ModelRequest \<Rightarrow> PartialCacheOptions option \<Rightarrow> CacheManager
     \<Rightarrow> CachedResponse option \<times> CacheManager" where
  "getCachedResponse pf now request options cm =
     (let mergedOptions = mergeOptions (defaultOptions cm) options
      in if \<not> flagTruthy (cachingEnabled mergedOptions) then (None, cm)
         else
           (let cacheKey = generateCacheKey pf request mergedOptions
            in case cache cm cacheKey of
                 None \<Rightarrow> (None, cm)
               | Some cachedItem \<Rightarrow>
                   if expiresAt cachedItem > now then (Some cachedItem, cm)
                   else (None, cm\<lparr> cache := (cache cm)(cacheKey := None) \<rparr>)))"

definition setCachedResponse ::
  "platform \<Rightarrow> date \<Rightarrow> ModelRequest \<Rightarrow> ModelResponse \<Rightarrow> TokenUsage
     \<Rightarrow> PartialCacheOptions option \<Rightarrow> CacheManager \<Rightarrow> CacheManager" where
  "setCachedResponse pf now request resp tokens options cm =
     (let mergedOptions = mergeOptions (defaultOptions cm) options
      in if \<not> flagTruthy (cachingEnabled mergedOptions) then cm
         else
           (let cacheKey = generateCacheKey pf request mergedOptions;
                expires = now + ttl mergedOptions
            in cm\<lparr> cache := (cache cm)(cacheKey \<mapsto>
                       \<lparr> cachedModelId = model request, response = resp, cachedAt = now,
                         expiresAt = expires, tokenUsage = tokens \<rparr>) \<rparr>))"

definition cleanupExpiredItems :: "date \<Rightarrow> CacheManager \<Rightarrow> CacheManager" where
  "cleanupExpiredItems now cm =
     cm\<lparr> cache := (\<lambda>k. case cache cm k of
                           None \<Rightarrow> None
                         | Some v \<Rightarrow> if expiresAt v \<le> now then None else Some v) \<rparr>"

section \<open>Request validation (\<open>ModelRequestSchema\<close>, chat route)\<close>

text \<open>
  The zod combinators the schema uses, on a parsed JSON body. A parser returns \<open>None\<close>
  where zod raises a \<open>ZodError\<close>. \<open>z.object\<close> reads the keys it declares and drops
  the others; an optional key may be absent but may not be \<open>null\<close>.
\<close>

definition zString :: "json \<Rightarrow> string option" where
  "zString j = (case j of JString s \<Rightarrow> Some s | _ \<Rightarrow> None)"

definition zNumber :: "json \<Rightarrow> rat option" where
  "zNumber j = (case j of JNumber x \<Rightarrow> Some x | _ \<Rightarrow> None)"

definition zBoolean :: "json \<Rightarrow> bool option" where
  "zBoolean j = (case j of JBool b \<Rightarrow> Some b | _ \<Rightarrow> None)"

definition zObject :: "json \<Rightarrow> (string \<times> json) list option" where
  "zObject j = (case j of JObject kvs \<Rightarrow> Some kvs | _ \<Rightarrow> None)"

definition zEnum :: "(string \<times> 'a) list \<Rightarrow> json \<Rightarrow> 'a option" where
  "zEnum table j = (case j of JString s \<Rightarrow> map_of table s | _ \<Rightarrow> None)"

definition zArray :: "(json \<Rightarrow> 'a option) \<Rightarrow> json \<Rightarrow> 'a list option" where
  "zArray p j = (case j of JArray xs \<Rightarrow> those (map p xs) | _ \<Rightarrow> None)"

definition zOr :: "(json \<Rightarrow> 'a option) \<Rightarrow> (json \<Rightarrow> 'a option) \<Rightarrow> json \<Rightarrow> 'a option" where
  "zOr p q j = (case p j of Some x \<Rightarrow> Some x | None \<Rightarrow> q j)"

definition zRange :: "rat \<Rightarrow> rat \<Rightarrow> json \<Rightarrow> rat option" where
  "zRange lo hi j =
     (case zNumber j of None \<Rightarrow> None | Some x \<Rightarrow> if lo \<le> x \<and> x \<le> hi then Some x else None)"

definition zPositiveInt :: "json \<Rightarrow> int option" where
  "zPositiveInt j =
     (case zNumber j of
        None \<Rightarrow> None
      | Some x \<Rightarrow> if 0 < x \<and> x = of_int \<lfloor>x\<rfloor> then Some \<lfloor>x\<rfloor> else None)"

definition required :: "(json \<Rightarrow> 'a option) \<Rightarrow> (string \<times> json) list \<Rightarrow> string \<Rightarrow> 'a option" where
  "required p kvs k = (case map_of kvs k of None \<Rightarrow> None | Some j \<Rightarrow> p j)"

definition optional ::
  "(json \<Rightarrow> 'a option) \<Rightarrow> (string \<times> json) list \<Rightarrow> string \<Rightarrow> 'a option option" where
  "optional p kvs k = (case map_of kvs k of None \<Rightarrow> Some None | Some j \<Rightarrow> map_option Some (p j))"

definition imageUrlSchema :: "json \<Rightarrow> ImageUrl option" where
  "imageUrlSchema j =
     do { kvs \<leftarrow> zObject j;
          u \<leftarrow> required zString kvs ''url'';
          d \<leftarrow> optional (zEnum [(''low'', Low), (''high'', High), (''auto'', Auto)]) kvs ''detail'';
          Some \<lparr> url = u, detail = d \<rparr> }"

definition partSchema :: "json \<Rightarrow> ContentPart option" where
  "partSchema j =
     do { kvs \<leftarrow> zObject j;
          ty \<leftarrow> required (zEnum [(''text'', PText), (''image_url'', PImageUrl)]) kvs ''type'';
          tx \<leftarrow> optional zString kvs ''text'';
          iu \<leftarrow> optional imageUrlSchema kvs ''image_url'';
          Some \<lparr> partType = ty, partText = tx, image_url = iu \<rparr> }"

definition contentSchema :: "json \<Rightarrow> content option" where
  "contentSchema =
     zOr (\<lambda>j. map_option ContentString (zString j))
         (\<lambda>j. map_option ContentParts (zArray partSchema j))"

definition messageSchema :: "json \<Rightarrow> ChatMessage option" where
  "messageSchema j =
     do { kvs \<leftarrow> zObject j;
          r \<leftarrow> required (zEnum [(''system'', System), (''user'', User),
                                 (''assistant'', Assistant)]) kvs ''role'';
          c \<leftarrow> required contentSchema kvs ''content'';
          n \<leftarrow> optional zString kvs ''name'';
          Some \<lparr> role = r, content = c, msgName = n \<rparr> }"

definition stopSchema :: "json \<Rightarrow> stop option" where
  "stopSchema =
     zOr (\<lambda>j. map_option StopString (zString j))
         (\<lambda>j. map_option StopList (zArray zString j))"

definition functionSchema :: "json \<Rightarrow> FunctionDecl option" where
  "functionSchema j =
     do { kvs \<leftarrow> zObject j;
          n \<leftarrow> required zString kvs ''name'';
          d \<leftarrow> optional zString kvs ''description'';
          p \<leftarrow> optional zObject kvs ''parameters'';
          Some \<lparr> fnName = n, fnDescription = d, fnParameters = p \<rparr> }"

definition functionCallSchema :: "json \<Rightarrow> function_call option" where
  "functionCallSchema =
     zOr (\<lambda>j. map_option CallString (zString j))
         (\<lambda>j. do { kvs \<leftarrow> zObject j;
                    n \<leftarrow> required zString kvs ''name'';
                    Some (CallObject n) })"

definition toolFunctionSchema :: "json \<Rightarrow> ToolFunction option" where
  "toolFunctionSchema j =
     do { kvs \<leftarrow> zObject j;
          n \<leftarrow> required zString kvs ''name'';
          d \<leftarrow> optional zString kvs ''description'';
          p \<leftarrow> required zObject kvs ''parameters'';
          Some \<lparr> tfName = n, tfDescription = d, tfParameters = p \<rparr> }"

definition toolSchema :: "json \<Rightarrow> ToolDecl option" where
  "toolSchema j =
     do { kvs \<leftarrow> zObject j;
          ty \<leftarrow> required zString kvs ''type'';
          f \<leftarrow> required toolFunctionSchema kvs ''function'';
          Some \<lparr> toolType = ty, toolFunction = f \<rparr> }"

definition routeSchema :: "json \<Rightarrow> RoutingStrategy option" where
  "routeSchema =
     zEnum [(''default'', Default), (''fallback'', Fallback), (''lowest-cost'', LowestCost),
            (''fastest'', Fastest), (''highest-quality'', HighestQuality)]"

definition responseFormatSchema :: "json \<Rightarrow> ResponseFormat option" where
  "responseFormatSchema j =
     do { kvs \<leftarrow> zObject j;
          ty \<leftarrow> optional (zEnum [(''text'', FormatText), (''json_object'', FormatJsonObject)])
                  kvs ''type'';
          Some \<lparr> formatType = ty \<rparr> }"

text \<open>\<open>messages: z.array(z.object({...}))\<close>: an array, with no bound on its length.\<close>

definition messagesSchema :: "json \<Rightarrow> ChatMessage list option" where
  "messagesSchema = zArray messageSchema"

definition ModelRequestSchema :: "json \<Rightarrow> ModelRequest option" where
  "ModelRequestSchema body =
     do { kvs \<leftarrow> zObject body;
          m \<leftarrow> required zString kvs ''model'';
          msgs \<leftarrow> required messagesSchema kvs ''messages'';
          te \<leftarrow> optional (zRange 0 2) kvs ''temperature'';
          mt \<leftarrow> optional zPositiveInt kvs ''max_tokens'';
          tp \<leftarrow> optional (zRange 0 1) kvs ''top_p'';
          st \<leftarrow> optional zBoolean kvs ''stream'';
          sp \<leftarrow> optional stopSchema kvs ''stop'';
          fp \<leftarrow> optional (zRange (- 2) 2) kvs ''frequency_penalty'';
          pp \<leftarrow> optional (zRange (- 2) 2) kvs ''presence_penalty'';
          fs \<leftarrow> optional (zArray functionSchema) kvs ''functions'';
          fc \<leftarrow> optional functionCallSchema kvs ''function_call'';
          ts \<leftarrow> optional (zArray toolSchema) kvs ''tools'';
          rt \<leftarrow> optional routeSchema kvs ''route'';
          fb \<leftarrow> optional (zArray zString) kvs ''fallbacks'';
          rf \<leftarrow> optional responseFormatSchema kvs ''response_format'';
          Some \<lparr> model = m, messages = msgs, temperature = te, max_tokens = mt, top_p = tp,
                 stream = st, stop = sp, frequency_penalty = fp, presence_penalty = pp,
                 functions_decl = fs, function_call = fc, tools = ts, route = rt,
                 fallbacks = fb, response_format = rf \<rparr> }"

text \<open>
  The plain branch of the chat route (\<open>POST\<close>, the \<open>else\<close> arm of \<open>if (endpointId)\<close>):
  a \<open>ZodError\<close> is answered with status 400.
\<close>

definition chatPlainBranch :: "json \<Rightarrow> http_error + ModelRequest" where
  "chatPlainBranch body =
     (case ModelRequestSchema body of
        None \<Rightarrow> Inl (400, ''Invalid request format'')
      | Some modelRequest \<Rightarrow> Inr modelRequest)"

section \<open>The request plane: analytics, batch child requests, chat route\<close>

subsection \<open>Usage records (analytics.ts)\<close>

text \<open>
  \<open>logUsage\<close> stamps the record with the time and appends it; the random suffix of the
  record id is left out. A cost of \<open>None\<close> is \<open>NaN\<close>.
\<close>

record UsageRecord =
  usageTimestamp :: date
  usageUserId :: string
  requestedModel :: string
  actualModel :: string
  usageTokens :: TokenUsage
  cost :: "rat option"
  latency :: int
  success :: bool
  errorType :: "string option"
  usageRoute :: "RoutingStrategy option"
  cacheHit :: "bool option"

text \<open>
  The stores a request handler works on. \<open>cacheCalls\<close> is a history variable: each
  call of \<open>getCachedResponse\<close> or \<open>setCachedResponse\<close> made by a handler is appended
  to it, with the request it was made for.
\<close>

datatype cache_call = CacheGet ModelRequest | CacheSet ModelRequest

record plane =
  cacheManager :: CacheManager
  usageRecords :: "UsageRecord list"
  cacheCalls :: "cache_call list"

definition logUsage :: "date \<Rightarrow> UsageRecord \<Rightarrow> plane \<Rightarrow> plane" where
  "logUsage now record p =
     p\<lparr> usageRecords := usageRecords p @ [record\<lparr> usageTimestamp := now \<rparr>] \<rparr>"

definition cacheGet ::
  "platform \<Rightarrow> date \<Rightarrow> ModelRequest \<Rightarrow> plane \<Rightarrow> CachedResponse option \<times> plane" where
  "cacheGet pf now request p =
     (case getCachedResponse pf now request None (cacheManager p) of
        (hit, cm) \<Rightarrow>
          (hit, p\<lparr> cacheManager := cm, cacheCalls := cacheCalls p @ [CacheGet request] \<rparr>))"

definition cacheSet ::
  "platform \<Rightarrow> date \<Rightarrow> ModelRequest \<Rightarrow> ModelResponse \<Rightarrow> TokenUsage \<Rightarrow> plane \<Rightarrow> plane" where
  "cacheSet pf now request resp tokens p =
     p\<lparr> cacheManager := setCachedResponse pf now request resp tokens None (cacheManager p),
        cacheCalls := cacheCalls p @ [CacheSet request] \<rparr>"

definition streamTruthy :: "ModelRequest \<Rightarrow> bool" where
  "streamTruthy request = (stream request = Some True)"

subsection \<open>Strings\<close>

definition digitChar :: "nat \<Rightarrow> char" where
  "digitChar d = ''0123456789'' ! d"

fun decimal :: "nat \<Rightarrow> string" where
  "decimal n = (if n < 10 then [digitChar n] else decimal (n div 10) @ [digitChar (n mod 10)])"

fun startsWith :: "string \<Rightarrow> string \<Rightarrow> bool" where
  "startsWith s [] = True"
| "startsWith [] (c # cs) = False"
| "startsWith (x # xs) (c # cs) = (x = c \<and> startsWith xs cs)"

fun includesText :: "string \<Rightarrow> string \<Rightarrow> bool" where
  "includesText [] t = (t = [])"
| "includesText (x # xs) t = (startsWith (x # xs) t \<or> includesText xs t)"

subsection \<open>A child request of a batch (\<open>processRequest\<close>)\<close>

text \<open>
  The outcome of the promise: fulfilled with a response, or rejected with the message
  of the error thrown.
\<close>

datatype settled = Fulfilled ModelResponse | Rejected string

text \<open>
  The times a call reads from the clock: on entry, at \<open>startTime\<close>, and after the
  upstream call (for a batch child, the simulated delay) has ended; the reads that
  follow fall in one synchronous stretch.
\<close>

record clock =
  enteredAt :: nat
  startedAt :: nat
  finishedAt :: nat

text \<open>
  \<open>estimateCost\<close> reads its own rate table with \<open>rates[modelId] || defaultRates\<close>. For
  an inherited name the member found has no \<open>input\<close> and \<open>output\<close>, and the cost is
  \<open>NaN\<close>.
\<close>

definition batchRates :: "(string \<times> rat \<times> rat) list" where
  "batchRates =
     [(''openai/gpt-4o'', 5, 15), (''openai/gpt-4-turbo'', 10, 30),
      (''openai/gpt-3.5-turbo'', 1/2, 3/2), (''anthropic/claude-3-opus'', 15, 75),
      (''anthropic/claude-3-sonnet'', 3, 15), (''anthropic/claude-3-haiku'', 1/4, 5/4),
      (''google/gemini-1.5-pro'', 7, 21), (''google/gemini-1.5-flash'', 3/2, 5),
      (''meta-llama/llama-3-70b-instruct'', 9/10, 27/10)]"

definition ratedCost :: "rat \<times> rat \<Rightarrow> int \<Rightarrow> int \<Rightarrow> rat" where
  "ratedCost rate inputTokens outputTokens =
     of_int inputTokens / 1000000 * fst rate + of_int outputTokens / 1000000 * snd rate"

definition estimateCost :: "string \<Rightarrow> int \<Rightarrow> int \<Rightarrow> rat option" where
  "estimateCost m inputTokens outputTokens =
     (case map_of batchRates m of
        Some rate \<Rightarrow> Some (ratedCost rate inputTokens outputTokens)
      | None \<Rightarrow>
          if m \<in> set objectPrototypeKeys then None
          else Some (ratedCost (1, 2) inputTokens outputTokens))"

definition failureRecord :: "string \<Rightarrow> ModelRequest \<Rightarrow> error \<Rightarrow> UsageRecord" where
  "failureRecord userId request e =
     \<lparr> usageTimestamp = 0, usageUserId = userId, requestedModel = model request,
       actualModel = model request,
       usageTokens = \<lparr> tokensInput = 0, tokensOutput = 0, tokensTotal = 0 \<rparr>,
       cost = Some 0, latency = 0, success = False, errorType = Some (errorName e),
       usageRoute = None, cacheHit = None \<rparr>"

definition simulatedResponse :: "nat \<Rightarrow> string \<Rightarrow> int \<Rightarrow> int \<Rightarrow> ModelResponse" where
  "simulatedResponse now actualModelId inputTokens outputTokens =
     \<lparr> responseId = ''chatcmpl-'' @ decimal now, object = ''chat.completion'',
       created = int (now div 1000), responseModel = actualModelId,
       choices = [\<lparr> choiceIndex = 0, choiceRole = Assistant,
                    choiceContent = ''This is a simulated batch response from ''
                                    @ actualModelId @ ''.'',
                    finish_reason = ''stop'' \<rparr>],
       usage = \<lparr> prompt_tokens = inputTokens, completion_tokens = outputTokens,
                 total_tokens = inputTokens + outputTokens \<rparr>,
       routed_through = actualModelId \<rparr>"

text \<open>
  \<open>processRequest(request, userId)\<close>. The cache is looked up first, for every request;
  only the store after the upstream call is guarded by \<open>!request.stream\<close>. Whatever
  the router throws is logged and thrown on.
\<close>

definition processRequest ::
  "platform \<Rightarrow> (nat \<Rightarrow> rat) \<Rightarrow> clock \<Rightarrow> ModelRequest \<Rightarrow> string \<Rightarrow> plane \<times> nat
     \<Rightarrow> settled \<times> plane \<times> nat" where
  "processRequest pf rnd clk request userId st =
     (case st of (p, n) \<Rightarrow>
        (case cacheGet pf (int (enteredAt clk)) request p of
           (Some cachedResponse, p1) \<Rightarrow> (Fulfilled (response cachedResponse), p1, n)
         | (None, p1) \<Rightarrow>
             (case routeRequest rnd n request of
                (Inl e, n1) \<Rightarrow>
                  (Rejected (errorMessage e),
                   logUsage (int (enteredAt clk)) (failureRecord userId request e) p1, n1)
              | (Inr actualModelId, n1) \<Rightarrow>
                  (let inputTokens = \<lfloor>rnd n1 * 200\<rfloor> + 50;
                       outputTokens = \<lfloor>rnd (Suc n1) * 500\<rfloor> + 100;
                       now = finishedAt clk;
                       resp = simulatedResponse now actualModelId inputTokens outputTokens;
                       tokens = \<lparr> tokensInput = inputTokens, tokensOutput = outputTokens,
                                  tokensTotal = inputTokens + outputTokens \<rparr>;
                       p2 = (if \<not> streamTruthy request
                             then cacheSet pf (int now) request resp tokens p1 else p1);
                       p3 = logUsage (int now)
                              \<lparr> usageTimestamp = 0, usageUserId = userId,
                                requestedModel = model request, actualModel = actualModelId,
                                usageTokens = tokens,
                                cost = estimateCost actualModelId inputTokens outputTokens,
                                latency = int now - int (startedAt clk), success = True,
                                errorType = None, usageRoute = route request,
                                cacheHit = Some False \<rparr> p2
                   in (Fulfilled resp, p3, Suc (Suc n1))))))"

subsection \<open>The chat route after validation (\<open>POST\<close>, from the cache check on)\<close>

text \<open>
  What \<open>aiClient.complete\<close> or \<open>aiClient.stream\<close> hands back is an input of the model:
  either an error thrown, or the provider's completion with the fields the route reads.
\<close>

record AiResponse =
  aiProvider :: string
  aiModel :: string
  completionId :: "string option"
  completionText :: string
  completionFinish :: "string option"
  completionUsage :: "Usage option"

datatype ai_outcome = AiThrew string | AiReturned AiResponse

datatype chat_reply =
    JsonReply ModelResponse
  | ErrorReply http_error
  | StreamingReply string

definition zeroUsage :: Usage where
  "zeroUsage = \<lparr> prompt_tokens = 0, completion_tokens = 0, total_tokens = 0 \<rparr>"

definition formatResponseForApi :: "nat \<Rightarrow> AiResponse \<Rightarrow> ModelResponse" where
  "formatResponseForApi now r =
     (let known = (aiProvider r = ''openai'' \<or> aiProvider r = ''anthropic'');
          generated = ''chatcmpl-'' @ decimal now
      in \<lparr> responseId =
              (if aiProvider r = ''openai''
               then (case completionId r of
                       None \<Rightarrow> generated
                     | Some i \<Rightarrow> if i = [] then generated else i)
               else generated),
            object = ''chat.completion'',
            created = int (now div 1000),
            responseModel = aiModel r,
            choices = [\<lparr> choiceIndex = 0, choiceRole = Assistant,
                         choiceContent = completionText r,
                         finish_reason =
                           (if known
                            then (case completionFinish r of
                                    None \<Rightarrow> ''stop''
                                  | Some f \<Rightarrow> if f = [] then ''stop'' else f)
                            else ''stop'') \<rparr>],
            usage = (if known
                     then (case completionUsage r of None \<Rightarrow> zeroUsage | Some u \<Rightarrow> u)
                     else zeroUsage),
            routed_through = aiProvider r @ ''/'' @ aiModel r \<rparr>)"

definition chatRates :: "(string \<times> rat \<times> rat) list" where
  "chatRates =
     [(''gpt-4o'', 5, 15), (''gpt-4-turbo'', 10, 30), (''gpt-3.5-turbo'', 1/2, 3/2),
      (''claude-3-opus'', 15, 75), (''claude-3-sonnet'', 3, 15), (''claude-3-haiku'', 1/4, 5/4)]"

definition calculateCost :: "string \<Rightarrow> Usage \<Rightarrow> rat" where
  "calculateCost m u =
     (let rate = (case filter (\<lambda>(name, r). includesText m name) chatRates of
                    [] \<Rightarrow> (1, 2)
                  | (name, r) # rest \<Rightarrow> r)
      in of_int (prompt_tokens u) / 1000000 * fst rate
         + of_int (completion_tokens u) / 1000000 * snd rate)"

definition chatPipeline ::
  "platform \<Rightarrow> clock \<Rightarrow> string \<Rightarrow> ModelRequest \<Rightarrow> ai_outcome \<Rightarrow> plane \<Rightarrow> chat_reply \<times> plane" where
  "chatPipeline pf clk userId modelRequest ai p =
     (let lookup = (if \<not> streamTruthy modelRequest
                    then cacheGet pf (int (enteredAt clk)) modelRequest p
                    else (None, p))
      in case lookup of
           (Some cachedResponse, p1) \<Rightarrow>
             (JsonReply (response cachedResponse),
              logUsage (int (enteredAt clk))
                \<lparr> usageTimestamp = 0, usageUserId = userId,
                  requestedModel = model modelRequest,
                  actualModel = cachedModelId cachedResponse,
                  usageTokens = tokenUsage cachedResponse, cost = Some 0, latency = 0,
                  success = True, errorType = None, usageRoute = None,
                  cacheHit = Some True \<rparr> p1)
         | (None, p1) \<Rightarrow>
             (case ai of
                AiThrew msg \<Rightarrow>
                  (ErrorReply (500, if msg = [] then ''An unexpected error occurred'' else msg),
                   p1)
              | AiReturned r \<Rightarrow>
                  (let now = finishedAt clk;
                       elapsed = int now - int (startedAt clk)
                   in if streamTruthy modelRequest then
                        (StreamingReply (completionText r),
                         logUsage (int now)
                           \<lparr> usageTimestamp = 0, usageUserId = userId,
                             requestedModel = model modelRequest, actualModel = aiModel r,
                             usageTokens =
                               \<lparr> tokensInput = 0, tokensOutput = 0, tokensTotal = 0 \<rparr>,
                             cost = Some 0, latency = elapsed, success = True, errorType = None,
                             usageRoute = None, cacheHit = None \<rparr> p1)
                      else
                        (let formatted = formatResponseForApi now r;
                             u = usage formatted;
                             tokens = \<lparr> tokensInput = prompt_tokens u,
                                        tokensOutput = completion_tokens u,
                                        tokensTotal = total_tokens u \<rparr>;
                             p2 = cacheSet pf (int now) modelRequest formatted tokens p1;
                             p3 = logUsage (int now)
                                    \<lparr> usageTimestamp = 0, usageUserId = userId,
                                      requestedModel = model modelRequest,
                                      actualModel = aiModel r, usageTokens = tokens,
                                      cost = Some (calculateCost (aiModel r) u), latency = elapsed,
                                      success = True, errorType = None, usageRoute = None,
                                      cacheHit = Some False \<rparr> p2
                         in (JsonReply formatted, p3)))))"

section \<open>Batch processor (the second module of custom-endpoints.ts)\<close>

datatype batch_status = Pending | Processing | Completed | Failed

datatype batch_priority = PriorityLow | PriorityNormal | PriorityHigh

text \<open>
  An element of \<open>results\<close>: the value of a fulfilled child, or \<open>{ error: message }\<close>
  for a rejected one.
\<close>

datatype batch_result = ResultValue ModelResponse | ResultError string

record BatchRequest =
  batchId :: string
  batchUserId :: string
  requests :: "ModelRequest list"
  batchCreatedAt :: date
  status :: batch_status
  priority :: batch_priority
  completedAt :: "date option"
  results :: "batch_result list option"
  batchError :: "string option"
  requestCount :: nat
  completedCount :: nat
  failedCount :: nat
  callbackUrl :: "string option"
  metadata :: "(string \<times> json) list option"

record BatchRequestOptions =
  optPriority :: "batch_priority option"
  optCallbackUrl :: "string option"
  optMetadata :: "(string \<times> json) list option"

text \<open>
  \<open>processNextBatch\<close> is an \<open>async\<close> function: it runs until it awaits the children
  of a chunk and goes on when they have all settled. The suspended call is kept in
  the state as an \<open>activation\<close>: the id taken from the queue, the constant \<open>batch\<close>
  read at the start, the loop index \<open>i\<close> and the \<open>results\<close> pushed so far.
\<close>

record activation =
  actBatchId :: string
  actBatch :: BatchRequest
  actIndex :: nat
  actResults :: "batch_result list"

text \<open>
  The processor. \<open>writes\<close> is a history variable: every \<open>batchRequests.set(id, b)\<close> is
  appended to it. \<open>console\<close> collects the lines of \<open>console.log\<close>.
\<close>

record BatchProcessor =
  batchRequests :: "string \<rightharpoonup> BatchRequest"
  processingQueue :: "string list"
  isProcessing :: bool
  awaiting :: "activation option"
  console :: "string list"
  writes :: "(string \<times> BatchRequest) list"

definition maxConcurrentRequests :: nat where
  "maxConcurrentRequests = 5"

definition batchSet :: "string \<Rightarrow> BatchRequest \<Rightarrow> BatchProcessor \<Rightarrow> BatchProcessor" where
  "batchSet bid b bp =
     bp\<lparr> batchRequests := (batchRequests bp)(bid \<mapsto> b), writes := writes bp @ [(bid, b)] \<rparr>"

definition priorityValue :: "batch_priority \<Rightarrow> nat" where
  "priorityValue p = (case p of PriorityHigh \<Rightarrow> 0 | PriorityNormal \<Rightarrow> 1 | PriorityLow \<Rightarrow> 2)"

text \<open>
  The insertion loop of \<open>addToProcessingQueue\<close>: before the first queued batch of
  strictly lower priority, else at the end; a queued id without a batch is passed over.
\<close>

fun insertByPriority ::
  "(string \<rightharpoonup> BatchRequest) \<Rightarrow> nat \<Rightarrow> string \<Rightarrow> string list \<Rightarrow> string list" where
  "insertByPriority store pv bid [] = [bid]"
| "insertByPriority store pv bid (q # qs) =
     (case store q of
        None \<Rightarrow> q # insertByPriority store pv bid qs
      | Some queuedBatch \<Rightarrow>
          if pv < priorityValue (priority queuedBatch) then bid # q # qs
          else q # insertByPriority store pv bid qs)"

definition urlTruthy :: "string option \<Rightarrow> bool" where
  "urlTruthy u = (case u of None \<Rightarrow> False | Some s \<Rightarrow> s \<noteq> [])"

text \<open>\<open>sendCallback\<close>: it writes one line to the console and does nothing else.\<close>

definition sendCallback :: "string \<Rightarrow> BatchProcessor \<Rightarrow> BatchProcessor" where
  "sendCallback bid bp =
     (case batchRequests bp bid of
        None \<Rightarrow> bp
      | Some batch \<Rightarrow>
          if \<not> urlTruthy (callbackUrl batch) then bp
          else bp\<lparr> console := console bp @
                    [''Sending callback for batch '' @ bid @ '' to ''
                     @ the (callbackUrl batch)] \<rparr>)"

text \<open>Truthiness of \<open>r.error\<close> on an element of \<open>results\<close>.\<close>

definition hasError :: "batch_result \<Rightarrow> bool" where
  "hasError r = (case r of ResultValue v \<Rightarrow> False | ResultError msg \<Rightarrow> msg \<noteq> [])"

text \<open>
  The end of the \<open>try\<close> block: the terminal update, built from the constant \<open>batch\<close>,
  and the callback.
\<close>

definition completedRecord :: "date \<Rightarrow> BatchRequest \<Rightarrow> batch_result list \<Rightarrow> BatchRequest" where
  "completedRecord now batch rs =
     batch\<lparr> status := Completed, completedAt := Some now, results := Some rs,
            completedCount := length (filter (\<lambda>r. \<not> hasError r) rs),
            failedCount := length (filter hasError rs) \<rparr>"

definition completeBatch ::
  "date \<Rightarrow> string \<Rightarrow> BatchRequest \<Rightarrow> batch_result list \<Rightarrow> BatchProcessor \<Rightarrow> BatchProcessor" where
  "completeBatch now bid batch rs bp =
     (let bp1 = batchSet bid (completedRecord now batch rs) bp
      in if urlTruthy (callbackUrl batch) then sendCallback (batchId batch) bp1 else bp1)"

text \<open>The \<open>catch\<close> block.\<close>

definition failBatch ::
  "date \<Rightarrow> string \<Rightarrow> BatchRequest \<Rightarrow> string \<Rightarrow> BatchProcessor \<Rightarrow> BatchProcessor" where
  "failBatch now bid batch msg bp =
     batchSet bid
       (batch\<lparr> status := Failed,
               batchError := Some (if msg = [] then ''Batch processing failed'' else msg),
               completedAt := Some now \<rparr>) bp"

text \<open>
  \<open>processNextBatch\<close>, from its start to the first \<open>await\<close>. With no child request the
  loop body never runs, so the batch completes at once and the function calls itself
  for the next id; an id with no batch is dropped, and an empty id ends the call.
\<close>

function processNextBatch :: "date \<Rightarrow> BatchProcessor \<Rightarrow> BatchProcessor" where
  "processNextBatch now bp =
     (case processingQueue bp of
        [] \<Rightarrow> bp\<lparr> isProcessing := False \<rparr>
      | bid # rest \<Rightarrow>
          if bid = [] then bp\<lparr> isProcessing := False, processingQueue := rest \<rparr>
          else
            (case batchRequests bp bid of
               None \<Rightarrow> processNextBatch now (bp\<lparr> isProcessing := False, processingQueue := rest \<rparr>)
             | Some batch \<Rightarrow>
                 if requests batch = [] then
                   processNextBatch now
                     ((completeBatch now bid batch []
                         (batchSet bid (batch\<lparr> status := Processing \<rparr>)
                            (bp\<lparr> isProcessing := True, processingQueue := rest \<rparr>)))
                        \<lparr> isProcessing := False \<rparr>)
                 else
                   (batchSet bid (batch\<lparr> status := Processing \<rparr>)
                      (bp\<lparr> isProcessing := True, processingQueue := rest \<rparr>))
                     \<lparr> awaiting := Some \<lparr> actBatchId = bid, actBatch = batch, actIndex = 0,
                                          actResults = [] \<rparr> \<rparr>))"
  by pat_completeness auto
termination
  by (relation "measure (\<lambda>(now, bp). length (processingQueue bp))")
     (auto simp: completeBatch_def completedRecord_def batchSet_def sendCallback_def Let_def
        split: option.splits)

declare processNextBatch.simps [simp del]

text \<open>
  \<open>addToProcessingQueue\<close> and \<open>createBatch\<close>. The id is \<open>batch_<time>_<random suffix>\<close>;
  the suffix is an argument of the model.
\<close>

definition addToProcessingQueue :: "date \<Rightarrow> string \<Rightarrow> BatchProcessor \<Rightarrow> BatchProcessor" where
  "addToProcessingQueue now bid bp =
     (case batchRequests bp bid of
        None \<Rightarrow> bp
      | Some batch \<Rightarrow>
          (let bp1 = bp\<lparr> processingQueue :=
                          insertByPriority (batchRequests bp) (priorityValue (priority batch))
                            bid (processingQueue bp) \<rparr>
           in if \<not> isProcessing bp1 then processNextBatch now bp1 else bp1))"

definition newBatchId :: "nat \<Rightarrow> string \<Rightarrow> string" where
  "newBatchId now suffix = ''batch_'' @ decimal now @ ''_'' @ suffix"

definition createBatch ::
  "nat \<Rightarrow> string \<Rightarrow> string \<Rightarrow> ModelRequest list \<Rightarrow> BatchRequestOptions \<Rightarrow> BatchProcessor
     \<Rightarrow> BatchRequest \<times> BatchProcessor" where
  "createBatch now suffix userId reqs options bp =
     (let bid = newBatchId now suffix;
          batch = \<lparr> batchId = bid, batchUserId = userId, requests = reqs,
                    batchCreatedAt = int now, status = Pending,
                    priority = (case optPriority options of None \<Rightarrow> PriorityNormal | Some p \<Rightarrow> p),
                    completedAt = None, results = None, batchError = None,
                    requestCount = length reqs, completedCount = 0, failedCount = 0,
                    callbackUrl = optCallbackUrl options, metadata = optMetadata options \<rparr>
      in (batch, addToProcessingQueue (int now) bid (batchSet bid batch bp)))"

definition getBatch :: "BatchProcessor \<Rightarrow> string \<Rightarrow> string \<Rightarrow> BatchRequest option" where
  "getBatch bp bid userId =
     (case batchRequests bp bid of
        None \<Rightarrow> None
      | Some batch \<Rightarrow> if batchUserId batch \<noteq> userId then None else Some batch)"

definition cancelBatch :: "date \<Rightarrow> string \<Rightarrow> string \<Rightarrow> BatchProcessor \<Rightarrow> bool \<times> BatchProcessor" where
  "cancelBatch now bid userId bp =
     (case batchRequests bp bid of
        None \<Rightarrow> (False, bp)
      | Some batch \<Rightarrow>
          if batchUserId batch \<noteq> userId then (False, bp)
          else if status batch \<noteq> Pending then (False, bp)
          else
            (True,
             batchSet bid
               (batch\<lparr> status := Failed, batchError := Some ''Batch cancelled by user'',
                       completedAt := Some now \<rparr>)
               (bp\<lparr> processingQueue := remove1 bid (processingQueue bp) \<rparr>)))"

text \<open>The body of the one-second interval of \<open>startProcessingLoop\<close>.\<close>

definition intervalTick :: "date \<Rightarrow> BatchProcessor \<Rightarrow> BatchProcessor" where
  "intervalTick now bp =
     (if \<not> isProcessing bp \<and> processingQueue bp \<noteq> [] then processNextBatch now bp else bp)"

text \<open>
  The rest of \<open>processNextBatch\<close>, run when the children of the awaited chunk have
  settled (\<open>Promise.allSettled\<close> gives one outcome per child, which never rejects).
  The children run concurrently and their outcomes depend on the cache, the router and
  the clock; they are an argument here. A rejection without a message is stored as
  \<open>'Request failed'\<close>. Reading the counters of a batch that is no longer in the map
  throws, which the \<open>catch\<close> block turns into a failed batch.
\<close>

definition isFulfilled :: "settled \<Rightarrow> bool" where
  "isFulfilled s = (case s of Fulfilled v \<Rightarrow> True | Rejected msg \<Rightarrow> False)"

definition settledResult :: "settled \<Rightarrow> batch_result" where
  "settledResult s =
     (case s of
        Fulfilled v \<Rightarrow> ResultValue v
      | Rejected msg \<Rightarrow> ResultError (if msg = [] then ''Request failed'' else msg))"

definition chunkSettled :: "date \<Rightarrow> settled list \<Rightarrow> BatchProcessor \<Rightarrow> BatchProcessor" where
  "chunkSettled now chunkResults bp =
     (case awaiting bp of
        None \<Rightarrow> bp
      | Some act \<Rightarrow>
          (case batchRequests bp (actBatchId act) of
             None \<Rightarrow>
               processNextBatch now
                 ((failBatch now (actBatchId act) (actBatch act)
                     ''Cannot read properties of undefined (reading 'completedCount')''
                     (bp\<lparr> awaiting := None \<rparr>))
                    \<lparr> isProcessing := False \<rparr>)
           | Some currentBatch \<Rightarrow>
               (let completed = completedCount currentBatch
                                + length (filter isFulfilled chunkResults);
                    failed = failedCount currentBatch
                             + length (filter (\<lambda>s. \<not> isFulfilled s) chunkResults);
                    rs = actResults act @ map settledResult chunkResults;
                    bp1 = batchSet (actBatchId act)
                            (currentBatch\<lparr> completedCount := completed,
                                           failedCount := failed \<rparr>) bp;
                    i = actIndex act + maxConcurrentRequests
                in if i < length (requests (actBatch act))
                   then bp1\<lparr> awaiting := Some (act\<lparr> actIndex := i, actResults := rs \<rparr>) \<rparr>
                   else processNextBatch now
                          ((completeBatch now (actBatchId act) (actBatch act) rs
                              (bp1\<lparr> awaiting := None \<rparr>))
                             \<lparr> isProcessing := False \<rparr>))))"

text \<open>
  The steps of the processor as events: the three entry points that change it, and
  the settling of an awaited chunk. An event is admissible when a created id is new
  and when the outcomes of a chunk are one per child of that chunk.
\<close>

datatype batch_event =
    Create nat string string "ModelRequest list" BatchRequestOptions
  | Cancel date string string
  | Tick date
  | Settle date "settled list"

fun perform :: "batch_event \<Rightarrow> BatchProcessor \<Rightarrow> BatchProcessor" where
  "perform (Create now suffix userId reqs options) bp =
     snd (createBatch now suffix userId reqs options bp)"
| "perform (Cancel now bid userId) bp = snd (cancelBatch now bid userId bp)"
| "perform (Tick now) bp = intervalTick now bp"
| "perform (Settle now chunkResults) bp = chunkSettled now chunkResults bp"

fun admissible :: "batch_event \<Rightarrow> BatchProcessor \<Rightarrow> bool" where
  "admissible (Create now suffix userId reqs options) bp =
     (batchRequests bp (newBatchId now suffix) = None)"
| "admissible (Settle now chunkResults) bp =
     (case awaiting bp of
        None \<Rightarrow> False
      | Some act \<Rightarrow>
          length chunkResults
            = min maxConcurrentRequests (length (requests (actBatch act)) - actIndex act))"
| "admissible ev bp = True"

fun runEvents :: "batch_event list \<Rightarrow> BatchProcessor \<Rightarrow> BatchProcessor option" where
  "runEvents [] bp = Some bp"
| "runEvents (ev # evs) bp =
     (if admissible ev bp then runEvents evs (perform ev bp) else None)"

definition initialProcessor :: BatchProcessor where
  "initialProcessor =
     \<lparr> batchRequests = Map.empty, processingQueue = [], isProcessing = False,
       awaiting = None, console = [], writes = [] \<rparr>"

text \<open>The records written under one id, in the order they were written.\<close>

definition history :: "BatchProcessor \<Rightarrow> string \<Rightarrow> BatchRequest list" where
  "history bp bid = map snd (filter (\<lambda>w. fst w = bid) (writes bp))"

definition countersLe :: "BatchRequest \<Rightarrow> BatchRequest \<Rightarrow> bool" where
  "countersLe b b' =
     (completedCount b \<le> completedCount b' \<and> failedCount b \<le> failedCount b')"

section \<open>Webhooks service (the second module of cache-manager.ts)\<close>

datatype WebhookEventType =
    RequestCreated | RequestCompleted | RequestFailed
  | ModelUnavailable | ModelFallback
  | EndpointCreated | EndpointUpdated | EndpointDeleted
  | CreditLow | ErrorEvent

text \<open>The string literals of the union type \<open>WebhookEventType\<close>.\<close>

fun eventTypeName :: "WebhookEventType \<Rightarrow> string" where
  "eventTypeName RequestCreated = ''request.created''"
| "eventTypeName RequestCompleted = ''request.completed''"
| "eventTypeName RequestFailed = ''request.failed''"
| "eventTypeName ModelUnavailable = ''model.unavailable''"
| "eventTypeName ModelFallback = ''model.fallback''"
| "eventTypeName EndpointCreated = ''endpoint.created''"
| "eventTypeName EndpointUpdated = ''endpoint.updated''"
| "eventTypeName EndpointDeleted = ''endpoint.deleted''"
| "eventTypeName CreditLow = ''credit.low''"
| "eventTypeName ErrorEvent = ''error''"

record LastStatus =
  lastSuccess :: bool
  lastTimestamp :: date
  lastStatusCode :: nat
  lastMessage :: string

record WebhookConfig =
  webhookId :: string
  webhookUrl :: string
  webhookUserId :: string
  webhookName :: string
  subscribedEvents :: "WebhookEventType list"
  secret :: "string option"
  active :: bool
  retries :: nat
  lastStatus :: "LastStatus option"

record WebhookEvent =
  eventId :: string
  eventTimestamp :: date
  eventUserId :: string
  eventType :: WebhookEventType
  eventData :: json

record WebhookDelivery =
  deliveryId :: string
  deliveryWebhookId :: string
  deliveryEventId :: string
  deliveryTimestamp :: date
  deliverySuccess :: bool
  statusCode :: nat
  responseBody :: string
  attempt :: nat
  nextRetry :: "date option"

text \<open>
  The webhooks are kept in insertion order, which is the order of the fan-out. Ids
  carry the time and a random suffix; the suffix is rendered as the index of the draw.
\<close>

record WebhooksService =
  webhooks :: "(string \<times> WebhookConfig) list"
  eventLog :: "WebhookEvent list"
  deliveries :: "WebhookDelivery list"

definition mapSet :: "'k \<Rightarrow> 'v \<Rightarrow> ('k \<times> 'v) list \<Rightarrow> ('k \<times> 'v) list" where
  "mapSet k v kvs =
     (if k \<in> fst ` set kvs then map (\<lambda>(k', v'). if k' = k then (k', v) else (k', v')) kvs
      else kvs @ [(k, v)])"

text \<open>
  \<open>deliverEvent\<close>: a simulated send that succeeds when the draw exceeds 0.2; it has no
  \<open>await\<close>, so it runs to its end when called.
\<close>

definition deliverEvent ::
  "(nat \<Rightarrow> rat) \<Rightarrow> nat \<Rightarrow> WebhookConfig \<Rightarrow> WebhookEvent \<Rightarrow> nat \<Rightarrow> WebhooksService \<times> nat
     \<Rightarrow> WebhooksService \<times> nat" where
  "deliverEvent rnd now webhook event attemptNumber st =
     (case st of (ws, n) \<Rightarrow>
        (let ok = (rnd n > 1 / 5);
             delivery =
               \<lparr> deliveryId = ''delivery_'' @ decimal now @ ''_'' @ decimal n,
                 deliveryWebhookId = webhookId webhook, deliveryEventId = eventId event,
                 deliveryTimestamp = int now, deliverySuccess = ok,
                 statusCode = (if ok then 200 else 500),
                 responseBody = (if ok then ''Webhook received'' else ''Internal server error''),
                 attempt = attemptNumber,
                 nextRetry = (if \<not> ok \<and> attemptNumber < retries webhook
                              then Some (int now + 2 ^ attemptNumber * 1000) else None) \<rparr>
         in (ws\<lparr> webhooks :=
                    mapSet (webhookId webhook)
                      (webhook\<lparr> lastStatus :=
                                 Some \<lparr> lastSuccess = ok, lastTimestamp = int now,
                                        lastStatusCode = statusCode delivery,
                                        lastMessage = responseBody delivery \<rparr> \<rparr>)
                      (webhooks ws),
                  deliveries := deliveries ws @ [delivery] \<rparr>,
             Suc n)))"

text \<open>\<open>triggerEvent\<close>: the only place that appends to the event log.\<close>

definition triggerEvent ::
  "(nat \<Rightarrow> rat) \<Rightarrow> nat \<Rightarrow> string \<Rightarrow> WebhookEventType \<Rightarrow> json \<Rightarrow> WebhooksService \<times> nat
     \<Rightarrow> string \<times> WebhooksService \<times> nat" where
  "triggerEvent rnd now userId ty payload st =
     (case st of (ws, n) \<Rightarrow>
        (let event = \<lparr> eventId = ''event_'' @ decimal now @ ''_'' @ decimal n,
                       eventTimestamp = int now, eventUserId = userId, eventType = ty,
                       eventData = payload \<rparr>;
             ws1 = ws\<lparr> eventLog := eventLog ws @ [event] \<rparr>;
             eligibleWebhooks =
               filter (\<lambda>webhook. active webhook \<and> webhookUserId webhook = userId
                                  \<and> ty \<in> set (subscribedEvents webhook))
                 (map snd (webhooks ws1))
         in (eventId event,
             fold (\<lambda>webhook. deliverEvent rnd now webhook event 1) eligibleWebhooks
               (ws1, Suc n))))"

subsection \<open>The process: its singletons side by side\<close>

text \<open>
  The batch processor imports the router, the cache and the analytics service, and
  not the webhooks service; an event of the processor acts on its own state.
\<close>

record server =
  batchProcessor :: BatchProcessor
  webhooksService :: WebhooksService

definition serverPerform :: "batch_event \<Rightarrow> server \<Rightarrow> server" where
  "serverPerform ev srv = srv\<lparr> batchProcessor := perform ev (batchProcessor srv) \<rparr>"

text \<open>
  The required features as the specification words them: function calling is required
  as soon as \<open>function_call\<close> is present.
\<close>

definition statedRequiredFeatures :: "ModelRequest \<Rightarrow> feature list" where
  "statedRequiredFeatures request =
     (if hasImageContent request then [Vision] else []) @
     (if lengthTruthy (functions_decl request) \<or> function_call request \<noteq> None
      then [FunctionCalling] else []) @
     (if lengthTruthy (tools request) then [ToolUse] else []) @
     (if wantsJson request then [Json] else [])"

subsection \<open>Sample inputs\<close>

text \<open>Every probe succeeds: each draw of \<open>Math.random()\<close> is 0.\<close>

definition always_up :: "nat \<Rightarrow> rat" where
  "always_up n = 0"

definition plainRequest :: "string \<Rightarrow> ChatMessage list \<Rightarrow> ModelRequest" where
  "plainRequest m msgs =
     \<lparr> model = m, messages = msgs, temperature = None, max_tokens = None, top_p = None,
       stream = None, stop = None, frequency_penalty = None, presence_penalty = None,
       functions_decl = None, function_call = None, tools = None, route = None,
       fallbacks = None, response_format = None \<rparr>"

definition userHi :: ChatMessage where
  "userHi = \<lparr> role = User, content = ContentString ''Hi'', msgName = None \<rparr>"

definition emptyFunctionCallRequest :: ModelRequest where
  "emptyFunctionCallRequest =
     (plainRequest ''meta-llama/llama-3-70b-instruct'' [userHi])
       \<lparr> function_call := Some (CallString []) \<rparr>"

definition imageMessage :: ChatMessage where
  "imageMessage =
     \<lparr> role = User,
       content = ContentParts
         [\<lparr> partType = PImageUrl, partText = None,
            image_url = Some \<lparr> url = ''https://example.com/cat.png'', detail = None \<rparr> \<rparr>],
       msgName = None \<rparr>"

definition weatherFunction :: FunctionDecl where
  "weatherFunction =
     \<lparr> fnName = ''get_weather'', fnDescription = None, fnParameters = None \<rparr>"

definition weatherTool :: ToolDecl where
  "weatherTool =
     \<lparr> toolType = ''function'',
       toolFunction = \<lparr> tfName = ''get_weather'', tfDescription = None, tfParameters = [] \<rparr> \<rparr>"

definition fullRequest :: ModelRequest where
  "fullRequest =
     (plainRequest ''openai/gpt-4-turbo'' [imageMessage])
       \<lparr> functions_decl := Some [weatherFunction],
         tools := Some [weatherTool],
         route := Some Fastest,
         response_format := Some \<lparr> formatType = Some FormatJsonObject \<rparr> \<rparr>"

text \<open>A request whose model id is the name of an inherited member, with no feature required.\<close>

definition constructorRequest :: ModelRequest where
  "constructorRequest = plainRequest ''constructor'' [userHi]"

text \<open>A private endpoint of user \<open>alice\<close>, and a store holding it.\<close>

definition aliceEndpoint :: CustomEndpointConfig where
  "aliceEndpoint =
     \<lparr> endpointId = ''endpoint_1'', endpointName = ''support-bot'', description = None,
       baseModel = ''anthropic/claude-3-haiku'',
       endpointFallbacks = [''openai/gpt-3.5-turbo''],
       routingStrategy = Fallback,
       parameters = \<lparr> paramTemperature = Some (1/5), paramMaxTokens = Some 256,
                      paramTopP = None, paramFrequencyPenalty = None,
                      paramPresencePenalty = None \<rparr>,
       systemPrompt = Some ''Be brief.'', createdAt = 1000, updatedAt = 1000,
       owner = ''alice'', isPublic = False, apiKey = None, rateLimit = None \<rparr>"

definition aliceStore :: endpoint_store where
  "aliceStore = Map.empty(''endpoint_1'' \<mapsto> aliceEndpoint)"

definition helloRequest :: ModelRequest where
  "helloRequest = plainRequest ''openai/gpt-4o'' [userHi]"

definition rewrittenHello :: ModelRequest where
  "rewrittenHello =
     \<lparr> model = ''anthropic/claude-3-haiku'',
       messages = [\<lparr> role = System, content = ContentString ''Be brief.'', msgName = None \<rparr>,
                   userHi],
       temperature = Some (1/5), max_tokens = Some 256, top_p = None,
       stream = None, stop = None, frequency_penalty = None, presence_penalty = None,
       functions_decl = None, function_call = None, tools = None, route = Some Fallback,
       fallbacks = Some [''openai/gpt-3.5-turbo''], response_format = None \<rparr>"

text \<open>
  The body \<open>{"id": "endpoint_1", "owner": "mallory"}\<close> of a \<open>PUT\<close> request.
\<close>

definition ownerBody :: EndpointUpdate where
  "ownerBody =
     \<lparr> upId = Some ''endpoint_1'', upName = None, upDescription = None, upBaseModel = None,
       upFallbacks = None, upRoutingStrategy = None, upParameters = None,
       upSystemPrompt = None, upCreatedAt = None, upUpdatedAt = None,
       upOwner = Some ''mallory'', upIsPublic = None, upApiKey = None, upRateLimit = None \<rparr>"

text \<open>
  Stand-ins for the two library functions, used to evaluate the cache on sample
  inputs: a digest that reads the model id and the number of messages, and a
  comparator that leaves the order as it is.
\<close>

definition samplePlatform :: platform where
  "samplePlatform =
     \<lparr> digest = (\<lambda>r. model r @ ''#'' @ replicate (length (messages r)) CHR ''m''),
       comesFirst = (\<lambda>a b. True) \<rparr>"

definition emptyCache :: CacheManager where
  "emptyCache = \<lparr> cache = Map.empty, defaultOptions = DEFAULT_CACHE_OPTIONS \<rparr>"

definition helloResponse :: ModelResponse where
  "helloResponse =
     \<lparr> responseId = ''chatcmpl-1'', object = ''chat.completion'', created = 1,
       responseModel = ''openai/gpt-4o'',
       choices = [\<lparr> choiceIndex = 0, choiceRole = Assistant, choiceContent = ''Hello!'',
                    finish_reason = ''stop'' \<rparr>],
       usage = \<lparr> prompt_tokens = 5, completion_tokens = 2, total_tokens = 7 \<rparr>,
       routed_through = ''openai/gpt-4o'' \<rparr>"

definition helloTokens :: TokenUsage where
  "helloTokens = \<lparr> tokensInput = 5, tokensOutput = 2, tokensTotal = 7 \<rparr>"

definition helloEntry :: CachedResponse where
  "helloEntry =
     \<lparr> cachedModelId = ''openai/gpt-4o'', response = helloResponse, cachedAt = 0,
       expiresAt = 3600000, tokenUsage = helloTokens \<rparr>"

definition helloCache :: CacheManager where
  "helloCache =
     \<lparr> cache = Map.empty(''openai/gpt-4o#m'' \<mapsto> helloEntry),
       defaultOptions = DEFAULT_CACHE_OPTIONS \<rparr>"

text \<open>The body \<open>{"model": "openai/gpt-4o", "messages": []}\<close>.\<close>

definition emptyMessagesBody :: json where
  "emptyMessagesBody = JObject [(''model'', JString ''openai/gpt-4o''), (''messages'', JArray [])]"

definition userHiJson :: json where
  "userHiJson = JObject [(''role'', JString ''user''), (''content'', JString ''Hi'')]"

text \<open>A streaming child request, and the stores with the answer to its non-streaming twin cached.\<close>

definition streamingRequest :: ModelRequest where
  "streamingRequest = helloRequest\<lparr> stream := Some True \<rparr>"

definition warmPlane :: plane where
  "warmPlane = \<lparr> cacheManager = helloCache, usageRecords = [], cacheCalls = [] \<rparr>"

definition sampleClock :: clock where
  "sampleClock = \<lparr> enteredAt = 10, startedAt = 110, finishedAt = 610 \<rparr>"

text \<open>
  Two batches of user \<open>alice\<close>, created one after the other on an idle processor: the
  first is picked up at once and waits for its only child, the second stays queued.
  The second names a callback URL.
\<close>

definition noOptions :: BatchRequestOptions where
  "noOptions = \<lparr> optPriority = None, optCallbackUrl = None, optMetadata = None \<rparr>"

definition callbackOptions :: BatchRequestOptions where
  "callbackOptions =
     \<lparr> optPriority = None, optCallbackUrl = Some ''https://example.com/hook'',
       optMetadata = None \<rparr>"

definition firstId :: string where
  "firstId = ''batch_1000_aaa''"

definition secondId :: string where
  "secondId = ''batch_1001_bbb''"

definition firstBatch :: BatchRequest where
  "firstBatch =
     \<lparr> batchId = firstId, batchUserId = ''alice'', requests = [helloRequest],
       batchCreatedAt = 1000, status = Pending, priority = PriorityNormal,
       completedAt = None, results = None, batchError = None, requestCount = 1,
       completedCount = 0, failedCount = 0, callbackUrl = None, metadata = None \<rparr>"

definition secondBatch :: BatchRequest where
  "secondBatch =
     \<lparr> batchId = secondId, batchUserId = ''alice'', requests = [helloRequest],
       batchCreatedAt = 1001, status = Pending, priority = PriorityNormal,
       completedAt = None, results = None, batchError = None, requestCount = 1,
       completedCount = 0, failedCount = 0,
       callbackUrl = Some ''https://example.com/hook'', metadata = None \<rparr>"

definition oneBatch :: BatchProcessor where
  "oneBatch =
     \<lparr> batchRequests = Map.empty(firstId \<mapsto> firstBatch\<lparr> status := Processing \<rparr>),
       processingQueue = [], isProcessing = True,
       awaiting = Some \<lparr> actBatchId = firstId, actBatch = firstBatch, actIndex = 0,
                         actResults = [] \<rparr>,
       console = [],
       writes = [(firstId, firstBatch), (firstId, firstBatch\<lparr> status := Processing \<rparr>)] \<rparr>"

definition twoBatches :: BatchProcessor where
  "twoBatches =
     \<lparr> batchRequests = Map.empty(firstId \<mapsto> firstBatch\<lparr> status := Processing \<rparr>,
                                   secondId \<mapsto> secondBatch),
       processingQueue = [secondId], isProcessing = True,
       awaiting = Some \<lparr> actBatchId = firstId, actBatch = firstBatch, actIndex = 0,
                         actResults = [] \<rparr>,
       console = [],
       writes = [(firstId, firstBatch), (firstId, firstBatch\<lparr> status := Processing \<rparr>),
                 (secondId, secondBatch)] \<rparr>"

definition twoBatchesEvents :: "batch_event list" where
  "twoBatchesEvents =
     [Create 1000 ''aaa'' ''alice'' [helloRequest] noOptions,
      Create 1001 ''bbb'' ''alice'' [helloRequest] callbackOptions]"

text \<open>The same processor after the child of the first batch has settled, then the child of the second.\<close>

definition firstDone :: BatchRequest where
  "firstDone =
     firstBatch\<lparr> status := Completed, completedAt := Some 2000,
                  results := Some [ResultValue helloResponse], completedCount := 1 \<rparr>"

definition secondDone :: BatchRequest where
  "secondDone =
     secondBatch\<lparr> status := Completed, completedAt := Some 3000,
                   results := Some [ResultValue helloResponse], completedCount := 1 \<rparr>"

definition afterFirstSettled :: BatchProcessor where
  "afterFirstSettled =
     \<lparr> batchRequests = Map.empty(firstId \<mapsto> firstDone,
                                   secondId \<mapsto> secondBatch\<lparr> status := Processing \<rparr>),
       processingQueue = [], isProcessing = True,
       awaiting = Some \<lparr> actBatchId = secondId, actBatch = secondBatch, actIndex = 0,
                         actResults = [] \<rparr>,
       console = [],
       writes = writes twoBatches @
                [(firstId, firstBatch\<lparr> status := Processing, completedCount := 1 \<rparr>),
                 (firstId, firstDone),
                 (secondId, secondBatch\<lparr> status := Processing \<rparr>)] \<rparr>"

definition afterSecondSettled :: BatchProcessor where
  "afterSecondSettled =
     \<lparr> batchRequests = Map.empty(firstId \<mapsto> firstDone, secondId \<mapsto> secondDone),
       processingQueue = [], isProcessing = False, awaiting = None,
       console = [''Sending callback for batch batch_1001_bbb to https://example.com/hook''],
       writes = writes afterFirstSettled @
                [(secondId, secondBatch\<lparr> status := Processing, completedCount := 1 \<rparr>),
                 (secondId, secondDone)] \<rparr>"

text \<open>
  \<open>alice\<close> has an active webhook subscribed to every event type, and the two batches
  above are in the processor.
\<close>

definition allEventTypes :: "WebhookEventType list" where
  "allEventTypes =
     [RequestCreated, RequestCompleted, RequestFailed, ModelUnavailable, ModelFallback,
      EndpointCreated, EndpointUpdated, EndpointDeleted, CreditLow, ErrorEvent]"

definition aliceWebhook :: WebhookConfig where
  "aliceWebhook =
     \<lparr> webhookId = ''webhook_1'', webhookUrl = ''https://example.com/hook'',
       webhookUserId = ''alice'', webhookName = ''all events'',
       subscribedEvents = allEventTypes, secret = None, active = True, retries = 3,
       lastStatus = None \<rparr>"

definition aliceHooks :: WebhooksService where
  "aliceHooks = \<lparr> webhooks = [(''webhook_1'', aliceWebhook)], eventLog = [], deliveries = [] \<rparr>"

definition aliceServer :: server where
  "aliceServer = \<lparr> batchProcessor = twoBatches, webhooksService = aliceHooks \<rparr>"

definition bothSettle :: "batch_event list" where
  "bothSettle = [Settle 2000 [Fulfilled helloResponse], Settle 3000 [Fulfilled helloResponse]]"

section \<open>Invariants of the batch processor\<close>

definition okCount :: "batch_result list \<Rightarrow> nat" where
  "okCount rs = length (filter (\<lambda>r. \<not> hasError r) rs)"

definition errCount :: "batch_result list \<Rightarrow> nat" where
  "errCount rs = length (filter hasError rs)"

definition withinCount :: "BatchRequest \<Rightarrow> bool" where
  "withinCount b = (completedCount b + failedCount b \<le> requestCount b)"

text \<open>
  The history is sound: every record written is within its request count, which is the
  number of its requests; the records of one id never lose progress; and the map holds,
  for each id, the record written last.
\<close>

definition histOk :: "BatchProcessor \<Rightarrow> bool" where
  "histOk bp \<longleftrightarrow>
     (\<forall>w \<in> set (writes bp). withinCount (snd w) \<and> requestCount (snd w) = length (requests (snd w)))
     \<and> (\<forall>i. sorted_wrt countersLe (history bp i))
     \<and> (\<forall>i. batchRequests bp i
              = (if history bp i = [] then None else Some (last (history bp i))))"

text \<open>Queued batches are stored and have made no progress.\<close>

definition zeroQueued :: "BatchProcessor \<Rightarrow> bool" where
  "zeroQueued bp \<longleftrightarrow>
     (\<forall>q \<in> set (processingQueue bp).
        \<exists>b. batchRequests bp q = Some b \<and> completedCount b = 0 \<and> failedCount b = 0)"

text \<open>
  A suspended call holds a batch that is stored in state processing and no longer
  queued, and the stored counters are those of the results pushed so far.
\<close>

definition suspendedOk :: "BatchProcessor \<Rightarrow> bool" where
  "suspendedOk bp \<longleftrightarrow>
     (case awaiting bp of
        None \<Rightarrow> True
      | Some act \<Rightarrow>
          isProcessing bp
          \<and> actBatchId act \<notin> set (processingQueue bp)
          \<and> actIndex act < length (requests (actBatch act))
          \<and> length (actResults act) = actIndex act
          \<and> requestCount (actBatch act) = length (requests (actBatch act))
          \<and> (\<exists>cur. batchRequests bp (actBatchId act) = Some cur
                 \<and> status cur = Processing
                 \<and> completedCount cur = okCount (actResults act)
                 \<and> failedCount cur = errCount (actResults act)
                 \<and> requestCount cur = requestCount (actBatch act)))"

definition processorInv :: "BatchProcessor \<Rightarrow> bool" where
  "processorInv bp \<longleftrightarrow>
     histOk bp \<and> distinct (processingQueue bp) \<and> zeroQueued bp \<and> suspendedOk bp"

section \<open>Properties of the router\<close>

lemma firstAvailableSupporting_Some:
  "firstAvailableSupporting rnd n rf ms = (Inr (Some m), n')
     \<Longrightarrow> modelSupportsFeatures m rf = Inr True \<and> m \<in> set ms"
  by (induction ms arbitrary: n) (auto split: prod.splits if_splits sum.splits)

lemma firstAvailable_Some:
  "firstAvailable rnd n ms = (Some m, n') \<Longrightarrow> m \<in> set ms"
  by (induction ms arbitrary: n) (auto split: prod.splits if_splits)

lemma orThrow_Inr: "orThrow msg r = (Inr m, n') \<Longrightarrow> r = (Inr (Some m), n')"
  by (auto simp: orThrow_def split: prod.splits option.splits sum.splits)

lemma filterThrowing_Inr:
  "filterThrowing p xs = Inr ys \<Longrightarrow> y \<in> set ys \<Longrightarrow> p y = Inr True"
  by (induction xs arbitrary: ys) (auto split: sum.splits if_splits)

lemma handleFallbackRouting_Inr:
  "handleFallbackRouting rnd n p fbs rf = (Inr m, n')
     \<Longrightarrow> modelSupportsFeatures m rf = Inr True"
  unfolding handleFallbackRouting_def
  by (auto split: prod.splits option.splits sum.splits fallback_lookup.splits
        dest!: orThrow_Inr firstAvailableSupporting_Some
        simp del: firstAvailableSupporting.simps)

lemma findLowestCostModel_Inr:
  assumes "findLowestCostModel rnd n rf = (Inr m, n')"
  shows "modelSupportsFeatures m rf = Inr True"
proof -
  from assms obtain eligible where
    e: "filterThrowing (\<lambda>i. modelSupportsFeatures (modelId i) rf) (map snd models)
          = Inr eligible"
    and f: "m \<in> set (map modelId
                        (sort_key (\<lambda>i. inputPricing i + outputPricing i) eligible))"
    unfolding findLowestCostModel_def
    by (auto simp: Let_def split: sum.splits prod.splits
          dest!: orThrow_Inr firstAvailable_Some)
  from f obtain info where "info \<in> set eligible" and "m = modelId info"
    by auto
  with filterThrowing_Inr [OF e] show ?thesis
    by simp
qed

lemma routeRequest_supports:
  "routeRequest rnd n request = (Inr m, n')
     \<Longrightarrow> modelSupportsFeatures m (getRequiredFeatures request) = Inr True"
  unfolding routeRequest_def Let_def findFastestModel_def findHighestQualityModel_def
  by (auto split: RoutingStrategy.splits prod.splits if_splits sum.splits
        dest: handleFallbackRouting_Inr findLowestCostModel_Inr orThrow_Inr
              firstAvailableSupporting_Some)

text \<open>
  The feature check answers \<open>true\<close> in two cases only: for a catalog entry with every
  required flag set, and for an inherited name when nothing is required.
\<close>

lemma modelSupportsFeatures_True:
  assumes "modelSupportsFeatures m rf = Inr True"
  shows "(m \<in> set objectPrototypeKeys \<and> rf = [])
         \<or> (\<exists>info. getModelById m = CatalogEntry info
                \<and> (\<forall>f \<in> set rf. featureFlag (supportedFeatures info) f))"
proof (cases "getModelById m")
  case (CatalogEntry info)
  with assms show ?thesis
    by (simp add: modelSupportsFeatures_def list_all_iff)
next
  case InheritedMember
  then have "m \<in> set objectPrototypeKeys"
    by (auto simp: getModelById_def split: option.splits if_splits)
  with assms InheritedMember show ?thesis
    by (auto simp: modelSupportsFeatures_def split: list.splits)
next
  case NoEntry
  with assms show ?thesis
    by (simp add: modelSupportsFeatures_def)
qed

lemma hasImageContent_iff:
  "hasImageContent request \<longleftrightarrow>
     (\<exists>msg \<in> set (messages request). \<exists>ps. content msg = ContentParts ps \<and>
        (\<exists>c \<in> set ps. partType c = PImageUrl))"
  unfolding hasImageContent_def list_ex_iff
  by (rule bex_cong[OF refl]) (auto split: content.splits)

lemmas router_eval =
  routeRequest_def plainRequest_def userHi_def getRequiredFeatures_def hasImageContent_def
  lengthTruthy_def functionCallTruthy_def wantsJson_def isModelAvailable_def
  lowAvailabilityModels_def always_up_def modelSupportsFeatures_def getModelById_def
  models_def mkModel_def

text \<open>
  C1, as stated, fails. The claim counts function calling as required whenever
  \<open>function_call\<close> is present. \<open>getRequiredFeatures\<close> tests the truthiness of
  \<open>request.function_call\<close>, and the schema admits the empty string, which is falsy.
  For a request to the Llama model with \<open>function_call = ""\<close> and every probe
  succeeding, the default strategy returns the Llama model, which has no function calling.
\<close>

theorem routeRequest_function_call_empty_string:
  "routeRequest always_up 0 emptyFunctionCallRequest
     = (Inr ''meta-llama/llama-3-70b-instruct'', 1)
   \<and> function_call emptyFunctionCallRequest \<noteq> None
   \<and> FunctionCalling \<in> set (statedRequiredFeatures emptyFunctionCallRequest)
   \<and> modelSupportsFeatures ''meta-llama/llama-3-70b-instruct''
         (statedRequiredFeatures emptyFunctionCallRequest) = Inr False"
  by (simp add: router_eval statedRequiredFeatures_def emptyFunctionCallRequest_def)

text \<open>
  A second way the routed model can miss the catalog: the catalog is read with
  \<open>models[id]\<close>, which also finds inherited members. For the model id \<open>constructor\<close>
  and no feature required, the default strategy returns \<open>constructor\<close>.
\<close>

lemma routeRequest_inherited_name:
  "routeRequest always_up 0 constructorRequest = (Inr ''constructor'', 1)
   \<and> map_of models ''constructor'' = None"
  by (simp add: router_eval constructorRequest_def objectPrototypeKeys_def)

text \<open>
  C1, amended: whenever \<open>routeRequest\<close> returns a model id, under any routing strategy,
  that id is in the catalog and its entry supports vision if a message of the request
  has an \<open>image_url\<close> part, function calling if \<open>functions\<close> is non-empty or
  \<open>function_call\<close> is present and is not the empty string, tool use if \<open>tools\<close> is
  non-empty, and JSON mode if \<open>response_format.type\<close> is \<open>json_object\<close>. One case is
  left open: a request that requires none of these features and is answered with the
  name of a member the catalog object inherits from \<open>Object.prototype\<close>.
\<close>

theorem routeRequest_features:
  assumes "routeRequest rnd n request = (Inr m, n')"
  shows "(m \<in> set objectPrototypeKeys \<and> getRequiredFeatures request = [])
       \<or> (\<exists>info. getModelById m = CatalogEntry info \<and>
           ((\<exists>msg \<in> set (messages request). \<exists>ps. content msg = ContentParts ps \<and>
               (\<exists>c \<in> set ps. partType c = PImageUrl))
              \<longrightarrow> vision (supportedFeatures info)) \<and>
           (((\<exists>fs. functions_decl request = Some fs \<and> fs \<noteq> []) \<or>
             (\<exists>fc. function_call request = Some fc \<and> fc \<noteq> CallString []))
              \<longrightarrow> functionCalling (supportedFeatures info)) \<and>
           ((\<exists>ts. tools request = Some ts \<and> ts \<noteq> [])
              \<longrightarrow> toolUse (supportedFeatures info)) \<and>
           ((\<exists>rf. response_format request = Some rf \<and> formatType rf = Some FormatJsonObject)
              \<longrightarrow> json (supportedFeatures info)))"
proof -
  from assms have "modelSupportsFeatures m (getRequiredFeatures request) = Inr True"
    by (rule routeRequest_supports)
  then consider
      (inherited) "m \<in> set objectPrototypeKeys" "getRequiredFeatures request = []"
    | (catalog) info where "getModelById m = CatalogEntry info"
        "\<forall>f \<in> set (getRequiredFeatures request). featureFlag (supportedFeatures info) f"
    using modelSupportsFeatures_True by blast
  then show ?thesis
  proof cases
    case inherited
    then show ?thesis by simp
  next
    case catalog
    note i = catalog(1) and a = catalog(2)
    have v: "hasImageContent request \<Longrightarrow> vision (supportedFeatures info)"
      using a by (auto simp: getRequiredFeatures_def)
    have f: "lengthTruthy (functions_decl request) \<or> functionCallTruthy (function_call request)
               \<Longrightarrow> functionCalling (supportedFeatures info)"
      using a by (auto simp: getRequiredFeatures_def)
    have t: "lengthTruthy (tools request) \<Longrightarrow> toolUse (supportedFeatures info)"
      using a by (auto simp: getRequiredFeatures_def)
    have j: "wantsJson request \<Longrightarrow> json (supportedFeatures info)"
      using a by (auto simp: getRequiredFeatures_def)
    have fc: "(\<exists>fc. function_call request = Some fc \<and> fc \<noteq> CallString [])
                \<Longrightarrow> functionCallTruthy (function_call request)"
      by (auto simp: functionCallTruthy_def split: function_call.splits)
    have "\<exists>info. getModelById m = CatalogEntry info \<and>
           ((\<exists>msg \<in> set (messages request). \<exists>ps. content msg = ContentParts ps \<and>
               (\<exists>c \<in> set ps. partType c = PImageUrl))
              \<longrightarrow> vision (supportedFeatures info)) \<and>
           (((\<exists>fs. functions_decl request = Some fs \<and> fs \<noteq> []) \<or>
             (\<exists>fc. function_call request = Some fc \<and> fc \<noteq> CallString []))
              \<longrightarrow> functionCalling (supportedFeatures info)) \<and>
           ((\<exists>ts. tools request = Some ts \<and> ts \<noteq> [])
              \<longrightarrow> toolUse (supportedFeatures info)) \<and>
           ((\<exists>rf. response_format request = Some rf \<and> formatType rf = Some FormatJsonObject)
              \<longrightarrow> json (supportedFeatures info))"
      using i v f t j fc
      by (auto simp: hasImageContent_iff lengthTruthy_def wantsJson_def)
    then show ?thesis by blast
  qed
qed

theorem routeRequest_features_witness:
  "routeRequest always_up 0 fullRequest = (Inr ''anthropic/claude-3-sonnet'', 5)
   \<and> ''anthropic/claude-3-sonnet'' \<notin> set objectPrototypeKeys
   \<and> (\<exists>msg \<in> set (messages fullRequest). \<exists>ps. content msg = ContentParts ps \<and>
         (\<exists>c \<in> set ps. partType c = PImageUrl))
   \<and> (\<exists>fs. functions_decl fullRequest = Some fs \<and> fs \<noteq> [])
   \<and> (\<exists>ts. tools fullRequest = Some ts \<and> ts \<noteq> [])
   \<and> (\<exists>rf. response_format fullRequest = Some rf \<and> formatType rf = Some FormatJsonObject)
   \<and> (\<exists>info. getModelById ''anthropic/claude-3-sonnet'' = CatalogEntry info
         \<and> vision (supportedFeatures info) \<and> functionCalling (supportedFeatures info)
         \<and> toolUse (supportedFeatures info) \<and> json (supportedFeatures info))"
proof -
  have r: "routeRequest always_up 0 fullRequest = (Inr ''anthropic/claude-3-sonnet'', 5)"
    by (simp add: router_eval fullRequest_def imageMessage_def weatherTool_def
          weatherFunction_def findFastestModel_def fastestModels_def orThrow_def)
  have k: "''anthropic/claude-3-sonnet'' \<notin> set objectPrototypeKeys"
    by (simp add: objectPrototypeKeys_def)
  have h1: "\<exists>msg \<in> set (messages fullRequest). \<exists>ps. content msg = ContentParts ps \<and>
              (\<exists>c \<in> set ps. partType c = PImageUrl)"
    by (simp add: fullRequest_def plainRequest_def imageMessage_def)
  have h2: "\<exists>fs. functions_decl fullRequest = Some fs \<and> fs \<noteq> []"
    by (simp add: fullRequest_def plainRequest_def)
  have h3: "\<exists>ts. tools fullRequest = Some ts \<and> ts \<noteq> []"
    by (simp add: fullRequest_def plainRequest_def)
  have h4: "\<exists>rf. response_format fullRequest = Some rf
              \<and> formatType rf = Some FormatJsonObject"
    by (simp add: fullRequest_def plainRequest_def)
  from routeRequest_features [OF r] k h1 h2 h3 h4 r show ?thesis
    by blast
qed

section \<open>Properties of the custom endpoints\<close>

lemma defaultKnob_idem: "defaultKnob p (defaultKnob p x) = defaultKnob p x"
  by (auto simp: defaultKnob_def)

lemma applyParameters_idem: "applyParameters p (applyParameters p r) = applyParameters p r"
  by (simp add: applyParameters_def defaultKnob_idem)

lemma applyParameters_fields:
  "model (applyParameters p r) = model r"
  "route (applyParameters p r) = route r"
  "fallbacks (applyParameters p r) = fallbacks r"
  "messages (applyParameters p r) = messages r"
  by (simp_all add: applyParameters_def)

lemma applySystemPrompt_fields:
  "model (applySystemPrompt e r) = model r"
  "route (applySystemPrompt e r) = route r"
  "fallbacks (applySystemPrompt e r) = fallbacks r"
  by (simp_all add: applySystemPrompt_def)

lemma applySystemPrompt_post:
  "promptTruthy (systemPrompt e)
     \<Longrightarrow> list_ex (\<lambda>m. role m = System) (messages (applySystemPrompt e r))"
  by (simp add: applySystemPrompt_def)

lemma applyFallbacks_fields:
  "model (applyFallbacks e r) = model r"
  "route (applyFallbacks e r) = route r"
  by (simp_all add: applyFallbacks_def)

lemma applyFallbacks_post:
  "endpointFallbacks e \<noteq> [] \<Longrightarrow> fallbacks (applyFallbacks e r) \<noteq> None"
  by (simp add: applyFallbacks_def)

lemma applyBaseModel_fixed:
  "model r = baseModel e \<Longrightarrow> route r = Some (routingStrategy e) \<Longrightarrow> applyBaseModel e r = r"
  by (simp add: applyBaseModel_def)

lemma applyFallbacks_fixed:
  "fallbacks r \<noteq> None \<or> endpointFallbacks e = [] \<Longrightarrow> applyFallbacks e r = r"
  by (auto simp add: applyFallbacks_def)

lemma applySystemPrompt_fixed:
  "\<not> promptTruthy (systemPrompt e) \<or> list_ex (\<lambda>m. role m = System) (messages r)
     \<Longrightarrow> applySystemPrompt e r = r"
  by (auto simp add: applySystemPrompt_def)

text \<open>
  A second pass of the four blocks over the result of the first changes nothing: model
  and route already hold the endpoint's values, fallbacks are present (or the endpoint
  has none to copy), a system message is present (or the endpoint has no prompt), and
  every knob the endpoint presets is set.
\<close>

lemma rewrite_twice:
  fixes e r
  defines "r' \<equiv> applyParameters (parameters e)
                   (applySystemPrompt e (applyFallbacks e (applyBaseModel e r)))"
  shows "applyParameters (parameters e)
           (applySystemPrompt e (applyFallbacks e (applyBaseModel e r'))) = r'"
proof -
  have "model r' = baseModel e" and "route r' = Some (routingStrategy e)"
    by (simp_all add: r'_def applyParameters_fields applySystemPrompt_fields
          applyFallbacks_fields applyBaseModel_def)
  then have b: "applyBaseModel e r' = r'"
    by (rule applyBaseModel_fixed)
  have "fallbacks r' \<noteq> None \<or> endpointFallbacks e = []"
    using applyFallbacks_post [of e "applyBaseModel e r"]
    by (auto simp add: r'_def applyParameters_fields applySystemPrompt_fields)
  then have f: "applyFallbacks e r' = r'"
    by (rule applyFallbacks_fixed)
  have "\<not> promptTruthy (systemPrompt e) \<or> list_ex (\<lambda>m. role m = System) (messages r')"
    using applySystemPrompt_post [of e "applyFallbacks e (applyBaseModel e r)"]
    by (auto simp add: r'_def applyParameters_fields)
  then have s: "applySystemPrompt e r' = r'"
    by (rule applySystemPrompt_fixed)
  have p: "applyParameters (parameters e) r' = r'"
    unfolding r'_def by (rule applyParameters_idem)
  show ?thesis by (simp add: b f s p)
qed

lemmas endpoint_eval =
  applyEndpointToRequest_def applyParameters_def applySystemPrompt_def applyFallbacks_def
  applyBaseModel_def defaultKnob_def promptTruthy_def aliceStore_def aliceEndpoint_def
  helloRequest_def plainRequest_def userHi_def rewrittenHello_def

text \<open>
  C2: for every stored endpoint and every request on which \<open>applyEndpointToRequest\<close>
  succeeds, applying it to its own result returns that result again.
\<close>

theorem applyEndpointToRequest_idempotent:
  assumes "applyEndpointToRequest endpoints i r = Some r'"
  shows "applyEndpointToRequest endpoints i r' = Some r'"
  using assms rewrite_twice
  by (auto simp: applyEndpointToRequest_def split: option.splits)

theorem applyEndpointToRequest_idempotent_witness:
  "applyEndpointToRequest aliceStore ''endpoint_1'' helloRequest = Some rewrittenHello
   \<and> applyEndpointToRequest aliceStore ''endpoint_1'' rewrittenHello = Some rewrittenHello"
proof -
  have h: "applyEndpointToRequest aliceStore ''endpoint_1'' helloRequest = Some rewrittenHello"
    by (simp add: endpoint_eval)
  from applyEndpointToRequest_idempotent [OF h] h show ?thesis
    by simp
qed

text \<open>
  C5 at a failing input: \<open>alice\<close> owns the private endpoint \<open>endpoint_1\<close>. The endpoints
  route refuses to show it to \<open>bob\<close> (404), yet the chat route, called by \<open>bob\<close> with
  that endpoint id, gets the request rewritten with the endpoint's preset: the rewriter
  looks the id up and never compares the owner or reads \<open>isPublic\<close>.
\<close>

theorem chat_applies_private_endpoint_of_other_owner:
  "owner aliceEndpoint \<noteq> ''bob'' \<and> \<not> isPublic aliceEndpoint
   \<and> endpointsGET aliceStore ''bob'' ''endpoint_1''
       = Inl (404, ''Endpoint not found or access denied'')
   \<and> chatEndpointBranch aliceStore ''bob'' ''endpoint_1'' helloRequest = Inr rewrittenHello"
  by (simp add: endpoint_eval chatEndpointBranch_def endpointsGET_def getEndpoint_def)

text \<open>
  C10 at a failing input: \<open>alice\<close>, the owner of \<open>endpoint_1\<close>, sends the \<open>PUT\<close> body
  \<open>{"id": "endpoint_1", "owner": "mallory"}\<close>. \<open>updateEndpoint\<close> spreads the body
  over the stored endpoint, so the stored owner becomes \<open>mallory\<close>: the owner is not
  kept, and \<open>alice\<close> can no longer update or delete the endpoint.
\<close>

theorem update_overwrites_owner:
  "aliceStore ''endpoint_1'' = Some aliceEndpoint \<and> owner aliceEndpoint = ''alice''
   \<and> endpointsPUT aliceStore ''alice'' 2000 ownerBody
       = (Inr (aliceEndpoint\<lparr> owner := ''mallory'', updatedAt := 2000 \<rparr>),
          aliceStore(''endpoint_1'' \<mapsto>
            aliceEndpoint\<lparr> owner := ''mallory'', updatedAt := 2000 \<rparr>))
   \<and> fst (updateEndpoint
            (aliceStore(''endpoint_1'' \<mapsto>
               aliceEndpoint\<lparr> owner := ''mallory'', updatedAt := 2000 \<rparr>))
            ''endpoint_1'' ownerBody ''alice'' 3000) = None"
  by (simp add: endpointsPUT_def updateEndpoint_def spreadEndpoint_def spreadKey_def
        spreadOptionalKey_def ownerBody_def aliceStore_def aliceEndpoint_def Let_def)

section \<open>Properties of the cache\<close>

lemma getCachedResponse_enabled:
  assumes "flagTruthy (cachingEnabled (mergeOptions (defaultOptions cm) options))"
  shows "getCachedResponse pf now request options cm =
     (case cache cm (generateCacheKey pf request (mergeOptions (defaultOptions cm) options)) of
        None \<Rightarrow> (None, cm)
      | Some cachedItem \<Rightarrow>
          if expiresAt cachedItem > now then (Some cachedItem, cm)
          else (None, cm\<lparr> cache := (cache cm)
                  (generateCacheKey pf request (mergeOptions (defaultOptions cm) options) := None) \<rparr>))"
  using assms by (simp add: getCachedResponse_def Let_def)

lemma setCachedResponse_enabled:
  assumes "flagTruthy (cachingEnabled (mergeOptions (defaultOptions cm) options))"
  shows "setCachedResponse pf now request resp tokens options cm =
     cm\<lparr> cache := (cache cm)(generateCacheKey pf request (mergeOptions (defaultOptions cm) options) \<mapsto>
                       \<lparr> cachedModelId = model request, response = resp, cachedAt = now,
                         expiresAt = now + ttl (mergeOptions (defaultOptions cm) options), tokenUsage = tokens \<rparr>) \<rparr>"
  using assms by (simp add: setCachedResponse_def Let_def)

lemma setCachedResponse_defaultOptions:
  "defaultOptions (setCachedResponse pf now request resp tokens options cm) = defaultOptions cm"
  by (simp add: setCachedResponse_def Let_def)

text \<open>
  C3: with caching enabled by the merged options, \<open>getCachedResponse\<close> returns an
  entry exactly when one is stored under the request's key and its expiry time is
  strictly later than the current time; an entry found expired is deleted by that
  lookup; after \<open>setCachedResponse\<close> at time \<open>now\<close> with a positive ttl, a lookup of the
  same request under the same options at any time from \<open>now\<close> up to, but excluding,
  \<open>now + ttl\<close> returns the stored response, and a lookup at \<open>now + ttl\<close> or later
  returns nothing.
\<close>

theorem cache_contract:
  assumes enabled: "flagTruthy (cachingEnabled (mergeOptions (defaultOptions cm) options))"
  shows "(fst (getCachedResponse pf now request options cm) = Some e
            \<longleftrightarrow> cache cm (generateCacheKey pf request (mergeOptions (defaultOptions cm) options)) = Some e
                \<and> now < expiresAt e)
       \<and> (cache cm (generateCacheKey pf request (mergeOptions (defaultOptions cm) options)) = Some e
            \<and> expiresAt e \<le> now
          \<longrightarrow> cache (snd (getCachedResponse pf now request options cm))
                (generateCacheKey pf request (mergeOptions (defaultOptions cm) options)) = None)
       \<and> (0 < ttl (mergeOptions (defaultOptions cm) options) \<and> now \<le> t
            \<and> t < now + ttl (mergeOptions (defaultOptions cm) options)
          \<longrightarrow> map_option response
                (fst (getCachedResponse pf t request options
                        (setCachedResponse pf now request resp tokens options cm))) = Some resp)
       \<and> (now + ttl (mergeOptions (defaultOptions cm) options) \<le> t
          \<longrightarrow> fst (getCachedResponse pf t request options
                      (setCachedResponse pf now request resp tokens options cm)) = None)"
proof -
  let ?cm' = "setCachedResponse pf now request resp tokens options cm"
  have enabled': "flagTruthy (cachingEnabled (mergeOptions (defaultOptions ?cm') options))"
    using enabled by (simp add: setCachedResponse_defaultOptions)
  have a: "fst (getCachedResponse pf now request options cm) = Some e
            \<longleftrightarrow> cache cm (generateCacheKey pf request (mergeOptions (defaultOptions cm) options)) = Some e
                \<and> now < expiresAt e"
    by (auto simp: getCachedResponse_enabled[OF enabled] split: option.splits)
  have b: "cache cm (generateCacheKey pf request (mergeOptions (defaultOptions cm) options)) = Some e
            \<and> expiresAt e \<le> now
          \<longrightarrow> cache (snd (getCachedResponse pf now request options cm))
                (generateCacheKey pf request (mergeOptions (defaultOptions cm) options)) = None"
    by (auto simp: getCachedResponse_enabled[OF enabled] split: option.splits)
  have c: "0 < ttl (mergeOptions (defaultOptions cm) options) \<and> now \<le> t
            \<and> t < now + ttl (mergeOptions (defaultOptions cm) options)
          \<longrightarrow> map_option response (fst (getCachedResponse pf t request options ?cm')) = Some resp"
    by (simp add: getCachedResponse_enabled[OF enabled'] setCachedResponse_defaultOptions)
       (simp add: setCachedResponse_enabled[OF enabled])
  have d: "now + ttl (mergeOptions (defaultOptions cm) options) \<le> t
          \<longrightarrow> fst (getCachedResponse pf t request options ?cm') = None"
    by (simp add: getCachedResponse_enabled[OF enabled'] setCachedResponse_defaultOptions)
       (simp add: setCachedResponse_enabled[OF enabled])
  from a b c d show ?thesis by blast
qed

lemmas cache_eval =
  getCachedResponse_def setCachedResponse_def generateCacheKey_def normalizeRequest_def
  mergeOptions_def flagTruthy_def sortBy_def samplePlatform_def emptyCache_def
  helloCache_def helloEntry_def DEFAULT_CACHE_OPTIONS_def helloRequest_def
  plainRequest_def userHi_def

theorem cache_contract_witness:
  "flagTruthy (cachingEnabled (mergeOptions (defaultOptions emptyCache) None))
   \<and> 0 < ttl (mergeOptions (defaultOptions emptyCache) None)
   \<and> map_option response
        (fst (getCachedResponse samplePlatform 10 helloRequest None
               (setCachedResponse samplePlatform 0 helloRequest helloResponse helloTokens
                  None emptyCache))) = Some helloResponse
   \<and> fst (getCachedResponse samplePlatform 3600000 helloRequest None
             (setCachedResponse samplePlatform 0 helloRequest helloResponse helloTokens
                None emptyCache)) = None
   \<and> cache helloCache ''openai/gpt-4o#m'' = Some helloEntry
   \<and> fst (getCachedResponse samplePlatform 10 helloRequest None helloCache) = Some helloEntry
   \<and> cache (snd (getCachedResponse samplePlatform 3600000 helloRequest None helloCache))
        ''openai/gpt-4o#m'' = None"
proof -
  have en: "flagTruthy (cachingEnabled (mergeOptions (defaultOptions emptyCache) None))"
    by (simp add: cache_eval)
  have en': "flagTruthy (cachingEnabled (mergeOptions (defaultOptions helloCache) None))"
    by (simp add: cache_eval)
  have t: "ttl (mergeOptions (defaultOptions emptyCache) None) = 3600000"
    by (simp add: cache_eval)
  have k: "generateCacheKey samplePlatform helloRequest
             (mergeOptions (defaultOptions helloCache) None) = ''openai/gpt-4o#m''"
    by (simp add: cache_eval)
  have c: "cache helloCache ''openai/gpt-4o#m'' = Some helloEntry"
    by (simp add: helloCache_def)
  have x: "expiresAt helloEntry = 3600000"
    by (simp add: helloEntry_def)
  have w1: "map_option response
        (fst (getCachedResponse samplePlatform 10 helloRequest None
               (setCachedResponse samplePlatform 0 helloRequest helloResponse helloTokens
                  None emptyCache))) = Some helloResponse"
    using cache_contract [OF en, where now = 0 and t = 10 and pf = samplePlatform
            and request = helloRequest and resp = helloResponse and tokens = helloTokens] t
    by simp
  have w2: "fst (getCachedResponse samplePlatform 3600000 helloRequest None
             (setCachedResponse samplePlatform 0 helloRequest helloResponse helloTokens
                None emptyCache)) = None"
    using cache_contract [OF en, where now = 0 and t = 3600000 and pf = samplePlatform
            and request = helloRequest and resp = helloResponse and tokens = helloTokens] t
    by simp
  have w3: "fst (getCachedResponse samplePlatform 10 helloRequest None helloCache)
              = Some helloEntry"
    using cache_contract [OF en', where now = 10 and pf = samplePlatform
            and request = helloRequest and e = helloEntry] k c x
    by simp
  have w4: "cache (snd (getCachedResponse samplePlatform 3600000 helloRequest None helloCache))
              ''openai/gpt-4o#m'' = None"
    using cache_contract [OF en', where now = 3600000 and pf = samplePlatform
            and request = helloRequest and e = helloEntry] k c x
    by simp
  from en t w1 w2 c w3 w4 show ?thesis
    by simp
qed


section \<open>Properties of request validation\<close>

lemma those_map_Some_iff: "those (map p xs) \<noteq> None \<longleftrightarrow> (\<forall>x \<in> set xs. p x \<noteq> None)"
  by (induction xs) (auto split: option.splits)

lemma minimal_body_accepted:
  assumes "those (map messageSchema js) = Some msgs"
  shows "ModelRequestSchema (JObject [(''model'', JString m), (''messages'', JArray js)])
           = Some (plainRequest m msgs)"
  using assms
  by (simp add: ModelRequestSchema_def zObject_def required_def optional_def zString_def
        messagesSchema_def zArray_def plainRequest_def)

lemma messages_rejected:
  assumes "map_of kvs ''messages'' = None
           \<or> (\<exists>j. map_of kvs ''messages'' = Some j \<and> messagesSchema j = None)"
  shows "ModelRequestSchema (JObject kvs) = None"
proof -
  have "required messagesSchema kvs ''messages'' = None"
    using assms by (auto simp: required_def)
  then show ?thesis
    by (simp add: ModelRequestSchema_def zObject_def split: Option.bind_split)
qed

text \<open>
  C4, as stated, fails: the schema declares \<open>messages\<close> as an array with no minimum
  length, so the body \<open>{"model": "openai/gpt-4o", "messages": []}\<close> passes validation
  and the chat route goes on with a request that has no message.
\<close>

theorem chat_accepts_empty_messages:
  "chatPlainBranch emptyMessagesBody = Inr (plainRequest ''openai/gpt-4o'' [])"
  by (simp add: chatPlainBranch_def emptyMessagesBody_def minimal_body_accepted)

text \<open>
  C4, amended: the \<open>messages\<close> check of request validation passes exactly for an array
  whose elements are all well-formed messages, the empty array included: a body with a
  model id and such an array is accepted whatever the array's length, and a body whose
  \<open>messages\<close> key is missing, is not an array or holds a malformed message is refused
  with status 400.
\<close>

theorem messages_check:
  "(messagesSchema j \<noteq> None
      \<longleftrightarrow> (\<exists>js. j = JArray js \<and> (\<forall>x \<in> set js. messageSchema x \<noteq> None)))
   \<and> (those (map messageSchema js) = Some msgs
        \<longrightarrow> chatPlainBranch (JObject [(''model'', JString m), (''messages'', JArray js)])
              = Inr (plainRequest m msgs))
   \<and> (map_of kvs ''messages'' = None
        \<or> (\<exists>j. map_of kvs ''messages'' = Some j \<and> messagesSchema j = None)
        \<longrightarrow> chatPlainBranch (JObject kvs) = Inl (400, ''Invalid request format''))"
proof -
  have a: "messagesSchema j \<noteq> None
      \<longleftrightarrow> (\<exists>js. j = JArray js \<and> (\<forall>x \<in> set js. messageSchema x \<noteq> None))"
    using those_map_Some_iff [of messageSchema]
    by (cases j) (auto simp: messagesSchema_def zArray_def)
  show ?thesis
    using a by (auto simp: chatPlainBranch_def minimal_body_accepted messages_rejected)
qed

lemma messageSchema_userHi: "messageSchema userHiJson = Some userHi"
  by (simp add: messageSchema_def userHiJson_def userHi_def zObject_def required_def
        optional_def zEnum_def contentSchema_def zOr_def zString_def)

theorem messages_check_witness:
  "messagesSchema (JArray [userHiJson]) \<noteq> None
   \<and> those (map messageSchema [userHiJson]) = Some [userHi]
   \<and> chatPlainBranch
        (JObject [(''model'', JString ''openai/gpt-4o''), (''messages'', JArray [userHiJson])])
       = Inr (plainRequest ''openai/gpt-4o'' [userHi])
   \<and> map_of [(''model'', JString ''openai/gpt-4o'')] ''messages'' = None
   \<and> chatPlainBranch (JObject [(''model'', JString ''openai/gpt-4o'')])
       = Inl (400, ''Invalid request format'')"
proof -
  have t: "those (map messageSchema [userHiJson]) = Some [userHi]"
    by (simp add: messageSchema_userHi)
  have w: "\<forall>x \<in> set [userHiJson]. messageSchema x \<noteq> None"
    by (simp add: messageSchema_userHi)
  have n: "map_of [(''model'', JString ''openai/gpt-4o'')] ''messages'' = None"
    by simp
  from messages_check [where j = "JArray [userHiJson]" and js = "[userHiJson]"
         and msgs = "[userHi]" and m = "''openai/gpt-4o''"
         and kvs = "[(''model'', JString ''openai/gpt-4o'')]"] t w n
  show ?thesis
    by blast
qed


section \<open>Properties of the request handlers\<close>

lemma cacheCalls_logUsage [simp]: "cacheCalls (logUsage now r p) = cacheCalls p"
  by (simp add: logUsage_def)

lemma cacheManager_logUsage [simp]: "cacheManager (logUsage now r p) = cacheManager p"
  by (simp add: logUsage_def)

lemma cacheCalls_cacheGet:
  "cacheCalls (snd (cacheGet pf now request p)) = cacheCalls p @ [CacheGet request]"
  by (simp add: cacheGet_def split: prod.splits)

text \<open>
  On the chat route a streaming request reaches neither the lookup nor the store: the
  cache and the history of cache calls are left as they were.
\<close>

lemma chatPipeline_streaming:
  assumes "stream modelRequest = Some True"
  shows "cacheCalls (snd (chatPipeline pf clk userId modelRequest ai p)) = cacheCalls p
         \<and> cacheManager (snd (chatPipeline pf clk userId modelRequest ai p)) = cacheManager p"
  using assms
  by (simp add: chatPipeline_def streamTruthy_def Let_def split: ai_outcome.splits)

text \<open>
  In a batch, every streaming child makes exactly one cache call, the lookup: the store
  is guarded by \<open>!request.stream\<close>, the lookup is not.
\<close>

lemma processRequest_streaming:
  assumes "stream request = Some True"
  shows "cacheCalls (fst (snd (processRequest pf rnd clk request userId (p, n))))
           = cacheCalls p @ [CacheGet request]"
proof -
  obtain hit p1 where g: "cacheGet pf (int (enteredAt clk)) request p = (hit, p1)"
    by (cases "cacheGet pf (int (enteredAt clk)) request p")
  with cacheCalls_cacheGet [of pf "int (enteredAt clk)" request p]
  have c: "cacheCalls p1 = cacheCalls p @ [CacheGet request]"
    by simp
  show ?thesis
    using assms g c
    by (simp add: processRequest_def streamTruthy_def Let_def
          split: option.splits prod.splits sum.splits)
qed

text \<open>
  C7 at a failing input: a batch child with \<open>stream = true\<close> whose non-streaming twin
  has an unexpired cache entry (the key drops \<open>stream\<close>). \<open>processRequest\<close> looks the
  cache up and answers the child from it.
\<close>

theorem batch_child_streaming_reads_cache:
  "stream streamingRequest = Some True
   \<and> processRequest samplePlatform always_up sampleClock streamingRequest ''alice''
         (warmPlane, 0)
       = (Fulfilled helloResponse, warmPlane\<lparr> cacheCalls := [CacheGet streamingRequest] \<rparr>, 0)"
  by (simp add: processRequest_def cacheGet_def cache_eval streamingRequest_def warmPlane_def
        sampleClock_def)

section \<open>Properties of the batch processor\<close>

subsection \<open>The sample run\<close>

lemma sample_ids: "newBatchId 1000 ''aaa'' = firstId" "newBatchId 1001 ''bbb'' = secondId"
  by (simp_all add: newBatchId_def firstId_def secondId_def digitChar_def)

lemma sample_ids_ne:
  "firstId \<noteq> secondId" "secondId \<noteq> firstId" "firstId \<noteq> []" "secondId \<noteq> []"
  by (simp_all add: firstId_def secondId_def)

lemmas batch_eval =
  chunkSettled_def completeBatch_def completedRecord_def sendCallback_def batchSet_def urlTruthy_def
  maxConcurrentRequests_def isFulfilled_def settledResult_def hasError_def
  processNextBatch.simps sample_ids_ne Let_def createBatch_def addToProcessingQueue_def
  priorityValue_def sample_ids

lemma create_first:
  "createBatch 1000 ''aaa'' ''alice'' [helloRequest] noOptions initialProcessor
     = (firstBatch, oneBatch)"
  by (simp add: batch_eval initialProcessor_def noOptions_def firstBatch_def oneBatch_def)

lemma create_second:
  "createBatch 1001 ''bbb'' ''alice'' [helloRequest] callbackOptions oneBatch
     = (secondBatch, twoBatches)"
  by (simp add: batch_eval oneBatch_def callbackOptions_def secondBatch_def twoBatches_def)

lemma run_twoBatches: "runEvents twoBatchesEvents initialProcessor = Some twoBatches"
proof -
  have a1: "admissible (Create 1000 ''aaa'' ''alice'' [helloRequest] noOptions) initialProcessor"
    by (simp add: sample_ids initialProcessor_def)
  have a2: "admissible (Create 1001 ''bbb'' ''alice'' [helloRequest] callbackOptions) oneBatch"
    by (simp add: sample_ids oneBatch_def sample_ids_ne)
  show ?thesis
    using a1 a2
    by (simp add: twoBatchesEvents_def create_first create_second del: admissible.simps)
qed

lemma settle_first:
  "chunkSettled 2000 [Fulfilled helloResponse] twoBatches = afterFirstSettled"
  by (simp add: batch_eval twoBatches_def afterFirstSettled_def firstDone_def firstBatch_def
        secondBatch_def fun_upd_twist)

lemma settle_second:
  "chunkSettled 3000 [Fulfilled helloResponse] afterFirstSettled = afterSecondSettled"
  by (simp add: batch_eval afterSecondSettled_def afterFirstSettled_def secondDone_def
        secondBatch_def secondId_def)

subsection \<open>Cancellation\<close>

text \<open>
  C9, as stated, fails on the error text: a cancelled batch carries the error
  \<open>Batch cancelled by user\<close>, not \<open>cancelled\<close>. Here \<open>alice\<close> cancels her queued
  second batch.
\<close>

theorem cancelBatch_error_text:
  "fst (cancelBatch 1500 secondId ''alice'' twoBatches)
   \<and> map_option batchError (batchRequests (snd (cancelBatch 1500 secondId ''alice'' twoBatches))
        secondId) = Some (Some ''Batch cancelled by user'')
   \<and> map_option batchError (batchRequests (snd (cancelBatch 1500 secondId ''alice'' twoBatches))
        secondId) \<noteq> Some (Some ''cancelled'')"
  by (simp add: cancelBatch_def twoBatches_def secondBatch_def batchSet_def sample_ids_ne)

text \<open>
  C9, amended: \<open>cancelBatch(id, owner)\<close> succeeds exactly when a batch with that id
  exists, belongs to \<open>owner\<close> and is pending; on success the stored batch is the old one
  with state failed, error \<open>Batch cancelled by user\<close> and \<open>completedAt\<close> set to the
  current time, the first occurrence of the id is taken out of the queue (so the id is
  no longer queued when the queue has no duplicates), and nothing else changes; in
  every other case it returns false and the processor is unchanged.
\<close>

theorem cancelBatch_contract:
  "(fst (cancelBatch now bid userId bp)
      \<longleftrightarrow> (\<exists>b. batchRequests bp bid = Some b \<and> batchUserId b = userId \<and> status b = Pending))
   \<and> (batchRequests bp bid = Some b \<and> batchUserId b = userId \<and> status b = Pending
        \<longrightarrow> snd (cancelBatch now bid userId bp)
              = bp\<lparr> batchRequests := (batchRequests bp)(bid \<mapsto>
                        b\<lparr> status := Failed, batchError := Some ''Batch cancelled by user'',
                           completedAt := Some now \<rparr>),
                     processingQueue := remove1 bid (processingQueue bp),
                     writes := writes bp @
                        [(bid, b\<lparr> status := Failed,
                                  batchError := Some ''Batch cancelled by user'',
                                  completedAt := Some now \<rparr>)] \<rparr>
            \<and> (distinct (processingQueue bp)
                 \<longrightarrow> bid \<notin> set (processingQueue (snd (cancelBatch now bid userId bp)))))
   \<and> (\<not> fst (cancelBatch now bid userId bp) \<longrightarrow> snd (cancelBatch now bid userId bp) = bp)"
  by (auto simp: cancelBatch_def batchSet_def split: option.splits)

theorem cancelBatch_contract_witness:
  "batchRequests twoBatches secondId = Some secondBatch
   \<and> batchUserId secondBatch = ''alice'' \<and> status secondBatch = Pending
   \<and> distinct (processingQueue twoBatches)
   \<and> fst (cancelBatch 1500 secondId ''alice'' twoBatches)
   \<and> secondId \<notin> set (processingQueue (snd (cancelBatch 1500 secondId ''alice'' twoBatches)))
   \<and> \<not> fst (cancelBatch 1500 firstId ''alice'' twoBatches)
   \<and> snd (cancelBatch 1500 firstId ''alice'' twoBatches) = twoBatches
   \<and> snd (cancelBatch 1500 secondId ''bob'' twoBatches) = twoBatches"
proof -
  have s: "batchRequests twoBatches secondId = Some secondBatch"
    by (simp add: twoBatches_def sample_ids_ne)
  have o: "batchUserId secondBatch = ''alice''" "status secondBatch = Pending"
    by (simp_all add: secondBatch_def)
  have d: "distinct (processingQueue twoBatches)"
    by (simp add: twoBatches_def)
  have f: "batchRequests twoBatches firstId = Some (firstBatch\<lparr> status := Processing \<rparr>)"
    by (simp add: twoBatches_def sample_ids_ne)
  have nf: "\<not> fst (cancelBatch 1500 firstId ''alice'' twoBatches)"
    using cancelBatch_contract
            [where now = 1500 and bid = firstId and userId = "''alice''" and bp = twoBatches] f
    by simp
  have nb: "\<not> fst (cancelBatch 1500 secondId ''bob'' twoBatches)"
    using cancelBatch_contract
            [where now = 1500 and bid = secondId and userId = "''bob''" and bp = twoBatches] s o
    by simp
  from cancelBatch_contract
         [where now = 1500 and bid = secondId and userId = "''alice''" and bp = twoBatches
            and b = secondBatch]
       cancelBatch_contract
         [where now = 1500 and bid = firstId and userId = "''alice''" and bp = twoBatches]
       cancelBatch_contract
         [where now = 1500 and bid = secondId and userId = "''bob''" and bp = twoBatches]
       s o d nf nb
  show ?thesis
    by blast
qed

subsection \<open>The completion callback\<close>

text \<open>
  C6 at a failing input: in the sample run the second batch, which names a callback
  URL, reaches \<open>completed\<close>, and \<open>alice\<close> has an active webhook subscribed to every
  event type. \<open>sendCallback\<close> writes a console line and nothing else: the event log
  and the deliveries of the webhooks service stay empty.
\<close>

theorem batch_completed_emits_no_event:
  "map_option status
     (batchRequests (batchProcessor (fold serverPerform bothSettle aliceServer)) secondId)
     = Some Completed
   \<and> map_option callbackUrl
       (batchRequests (batchProcessor (fold serverPerform bothSettle aliceServer)) secondId)
     = Some (Some ''https://example.com/hook'')
   \<and> console (batchProcessor (fold serverPerform bothSettle aliceServer))
     = [''Sending callback for batch batch_1001_bbb to https://example.com/hook'']
   \<and> active aliceWebhook \<and> webhookUserId aliceWebhook = ''alice''
   \<and> webhooks (webhooksService aliceServer) = [(''webhook_1'', aliceWebhook)]
   \<and> eventLog (webhooksService (fold serverPerform bothSettle aliceServer)) = []
   \<and> deliveries (webhooksService (fold serverPerform bothSettle aliceServer)) = []"
  by (simp add: bothSettle_def serverPerform_def aliceServer_def settle_first settle_second
        afterSecondSettled_def secondDone_def secondBatch_def aliceHooks_def aliceWebhook_def
        sample_ids_ne)

subsection \<open>The counters of a batch\<close>

lemma batchSet_fields [simp]:
  "batchRequests (batchSet i b bp) = (batchRequests bp)(i \<mapsto> b)"
  "writes (batchSet i b bp) = writes bp @ [(i, b)]"
  "processingQueue (batchSet i b bp) = processingQueue bp"
  "isProcessing (batchSet i b bp) = isProcessing bp"
  "awaiting (batchSet i b bp) = awaiting bp"
  "console (batchSet i b bp) = console bp"
  by (simp_all add: batchSet_def)

lemma history_batchSet:
  "history (batchSet i b bp) j = (if j = i then history bp j @ [b] else history bp j)"
  by (simp add: history_def)

lemma history_updates [simp]:
  "history (bp\<lparr> processingQueue := q \<rparr>) = history bp"
  "history (bp\<lparr> isProcessing := x \<rparr>) = history bp"
  "history (bp\<lparr> awaiting := a \<rparr>) = history bp"
  "history (bp\<lparr> console := c \<rparr>) = history bp"
  by (simp_all add: history_def fun_eq_iff)

lemma histOk_updates [simp]:
  "histOk (bp\<lparr> processingQueue := q \<rparr>) = histOk bp"
  "histOk (bp\<lparr> isProcessing := x \<rparr>) = histOk bp"
  "histOk (bp\<lparr> awaiting := a \<rparr>) = histOk bp"
  "histOk (bp\<lparr> console := c \<rparr>) = histOk bp"
  by (simp_all add: histOk_def)

lemma countersLe_refl [simp]: "countersLe b b"
  by (simp add: countersLe_def)

lemma countersLe_trans: "countersLe a b \<Longrightarrow> countersLe b c \<Longrightarrow> countersLe a c"
  by (auto simp: countersLe_def)

lemma sorted_wrt_last:
  assumes "sorted_wrt countersLe xs" "x \<in> set xs"
  shows "countersLe x (last xs)"
  using assms
proof (induction xs)
  case Nil
  then show ?case by simp
next
  case (Cons a xs)
  then show ?case by (cases "xs = []") auto
qed

lemma histOk_stored:
  assumes "histOk bp" "batchRequests bp i = Some b"
  shows "(i, b) \<in> set (writes bp)"
proof -
  from assms have h: "history bp i \<noteq> []" and l: "b = last (history bp i)"
    by (auto simp: histOk_def split: if_splits)
  then have "b \<in> set (history bp i)"
    by simp
  then show ?thesis
    by (auto simp: history_def)
qed

lemma histOk_stored_within:
  assumes "histOk bp" "batchRequests bp i = Some b"
  shows "withinCount b" "requestCount b = length (requests b)"
  using histOk_stored [OF assms] assms(1) by (auto simp: histOk_def)

text \<open>
  Writing a record keeps the history sound when the record does not lose progress
  against the one stored, is within its request count, and counts its own requests.
\<close>

lemma histOk_batchSet:
  assumes h: "histOk bp"
    and le: "\<And>old. batchRequests bp i = Some old \<Longrightarrow> countersLe old b"
    and w: "withinCount b" and r: "requestCount b = length (requests b)"
  shows "histOk (batchSet i b bp)"
proof -
  have s: "sorted_wrt countersLe (history bp i @ [b])"
  proof (cases "history bp i = []")
    case True
    then show ?thesis by simp
  next
    case False
    with h have st: "batchRequests bp i = Some (last (history bp i))"
      by (simp add: histOk_def)
    have srt: "sorted_wrt countersLe (history bp i)"
      using h by (simp add: histOk_def)
    have "\<forall>x \<in> set (history bp i). countersLe x b"
      using sorted_wrt_last [OF srt] le [OF st] countersLe_trans by blast
    with srt show ?thesis
      by (simp add: sorted_wrt_append)
  qed
  show ?thesis
    using h w r s
    by (auto simp: histOk_def history_batchSet)
qed


lemma sendCallback_fields [simp]:
  "batchRequests (sendCallback i bp) = batchRequests bp"
  "writes (sendCallback i bp) = writes bp"
  "processingQueue (sendCallback i bp) = processingQueue bp"
  "isProcessing (sendCallback i bp) = isProcessing bp"
  "awaiting (sendCallback i bp) = awaiting bp"
  by (simp_all add: sendCallback_def split: option.splits)

lemma completeBatch_fields [simp]:
  "batchRequests (completeBatch now i batch rs bp)
     = (batchRequests bp)(i \<mapsto> completedRecord now batch rs)"
  "writes (completeBatch now i batch rs bp) = writes bp @ [(i, completedRecord now batch rs)]"
  "processingQueue (completeBatch now i batch rs bp) = processingQueue bp"
  "isProcessing (completeBatch now i batch rs bp) = isProcessing bp"
  "awaiting (completeBatch now i batch rs bp) = awaiting bp"
  by (simp_all add: completeBatch_def Let_def)

lemma histOk_cong:
  "batchRequests bp' = batchRequests bp \<Longrightarrow> writes bp' = writes bp \<Longrightarrow> histOk bp' = histOk bp"
  by (simp add: histOk_def history_def)

lemma histOk_completeBatch:
  "histOk (completeBatch now i batch rs bp) = histOk (batchSet i (completedRecord now batch rs) bp)"
  by (rule histOk_cong) simp_all

lemma completedRecord_fields [simp]:
  "completedCount (completedRecord now batch rs) = okCount rs"
  "failedCount (completedRecord now batch rs) = errCount rs"
  "requestCount (completedRecord now batch rs) = requestCount batch"
  "requests (completedRecord now batch rs) = requests batch"
  by (simp_all add: completedRecord_def okCount_def errCount_def)

lemma ok_err_length: "okCount rs + errCount rs = length rs"
  by (simp add: okCount_def errCount_def sum_length_filter_compl add.commute)

lemma processorInv_idle:
  "histOk bp \<Longrightarrow> distinct (processingQueue bp) \<Longrightarrow> zeroQueued bp \<Longrightarrow> awaiting bp = None
     \<Longrightarrow> processorInv bp"
  by (simp add: processorInv_def suspendedOk_def)

text \<open>
  Starting the next batch from a processor with no suspended call: by induction along
  the recursion of \<open>processNextBatch\<close>. A picked batch has counters 0, so both the
  immediate completion of a batch without requests and the first suspension agree with
  the stored counters.
\<close>

lemma processorInv_processNextBatch:
  assumes "histOk bp" "distinct (processingQueue bp)" "zeroQueued bp" "awaiting bp = None"
  shows "processorInv (processNextBatch now bp)"
  using assms
proof (induction now bp rule: processNextBatch.induct)
  case (1 now bp)
  note h = "1.prems"(1) and d = "1.prems"(2) and z = "1.prems"(3) and a = "1.prems"(4)
  show ?case
  proof (cases "processingQueue bp")
    case Nil
    then have "processNextBatch now bp = bp\<lparr> isProcessing := False \<rparr>"
      by (subst processNextBatch.simps) simp
    moreover have "processorInv (bp\<lparr> isProcessing := False \<rparr>)"
      using h d z a by (intro processorInv_idle) (simp_all add: zeroQueued_def)
    ultimately show ?thesis by simp
  next
    case (Cons bid rest)
    from z Cons obtain batch where
      b: "batchRequests bp bid = Some batch" and
      c: "completedCount batch = 0" "failedCount batch = 0"
      by (auto simp: zeroQueued_def)
    from d Cons have nr: "bid \<notin> set rest" and dr: "distinct rest"
      by simp_all
    have zr: "\<And>q. q \<in> set rest \<Longrightarrow>
                \<exists>b. batchRequests bp q = Some b \<and> completedCount b = 0 \<and> failedCount b = 0"
      using z Cons by (auto simp: zeroQueued_def)
    let ?picked = "batchSet bid (batch\<lparr> status := Processing \<rparr>)
                     (bp\<lparr> isProcessing := True, processingQueue := rest \<rparr>)"
    have wb: "withinCount batch" "requestCount batch = length (requests batch)"
      using histOk_stored_within [OF h b] by simp_all
    have hp: "histOk ?picked"
    proof (rule histOk_batchSet)
      show "histOk (bp\<lparr> isProcessing := True, processingQueue := rest \<rparr>)"
        using h by simp
    qed (use b wb in \<open>auto simp: countersLe_def withinCount_def\<close>)
    show ?thesis
    proof (cases "bid = []")
      case True
      then have "processNextBatch now bp = bp\<lparr> isProcessing := False, processingQueue := rest \<rparr>"
        using Cons by (subst processNextBatch.simps) simp
      moreover have "processorInv (bp\<lparr> isProcessing := False, processingQueue := rest \<rparr>)"
        using h dr zr a by (intro processorInv_idle) (simp_all add: zeroQueued_def)
      ultimately show ?thesis by simp
    next
      case False
      show ?thesis
      proof (cases "requests batch = []")
        case True
        let ?done = "(completeBatch now bid batch [] ?picked)\<lparr> isProcessing := False \<rparr>"
        have e: "processNextBatch now bp = processNextBatch now ?done"
          using Cons False b True by (subst processNextBatch.simps) simp
        have "histOk (batchSet bid (completedRecord now batch []) ?picked)"
        proof (rule histOk_batchSet [OF hp])
          fix old
          assume "batchRequests ?picked bid = Some old"
          then show "countersLe old (completedRecord now batch [])"
            using c by (auto simp: countersLe_def)
        qed (use wb in \<open>simp_all add: withinCount_def okCount_def errCount_def\<close>)
        then have hd: "histOk ?done"
          by (simp add: histOk_completeBatch)
        have zd: "zeroQueued ?done"
          using zr nr by (auto simp: zeroQueued_def)
        have "processorInv (processNextBatch now ?done)"
          using "1.IH"(2) [OF Cons False b True hd] dr zd a by simp
        with e show ?thesis by simp
      next
        case nonempty: False
        let ?act = "\<lparr> actBatchId = bid, actBatch = batch, actIndex = 0, actResults = [] \<rparr>"
        have e: "processNextBatch now bp = ?picked\<lparr> awaiting := Some ?act \<rparr>"
          using Cons False b nonempty by (subst processNextBatch.simps) simp
        have "processorInv (?picked\<lparr> awaiting := Some ?act \<rparr>)"
          using hp dr zr nr nonempty c wb
          by (auto simp: processorInv_def zeroQueued_def suspendedOk_def okCount_def errCount_def)
        with e show ?thesis by simp
      qed
    qed
  qed
qed


lemma set_insertByPriority: "set (insertByPriority store pv x qs) = insert x (set qs)"
  by (induction qs) (auto split: option.splits)

lemma distinct_insertByPriority:
  "x \<notin> set qs \<Longrightarrow> distinct qs \<Longrightarrow> distinct (insertByPriority store pv x qs)"
  by (induction qs) (auto simp: set_insertByPriority split: option.splits)

lemma suspended_awaiting_None: "suspendedOk bp \<Longrightarrow> \<not> isProcessing bp \<Longrightarrow> awaiting bp = None"
  by (cases "awaiting bp") (auto simp: suspendedOk_def)

lemma processorInv_createBatch:
  assumes inv: "processorInv bp" and fresh: "batchRequests bp (newBatchId now suffix) = None"
  shows "processorInv (snd (createBatch now suffix userId reqs options bp))"
proof -
  define bid where "bid = newBatchId now suffix"
  define batch where "batch =
     \<lparr> batchId = bid, batchUserId = userId, requests = reqs,
       batchCreatedAt = int now, status = Pending,
       priority = (case optPriority options of None \<Rightarrow> PriorityNormal | Some p \<Rightarrow> p),
       completedAt = None, results = None, batchError = None,
       requestCount = length reqs, completedCount = 0, failedCount = 0,
       callbackUrl = optCallbackUrl options, metadata = optMetadata options \<rparr>"
  define bp0 where "bp0 = batchSet bid batch bp"
  define bp1 where "bp1 = bp0\<lparr> processingQueue :=
                      insertByPriority (batchRequests bp0) (priorityValue (priority batch))
                        bid (processingQueue bp0) \<rparr>"
  from inv have h: "histOk bp" and d: "distinct (processingQueue bp)"
    and z: "zeroQueued bp" and s: "suspendedOk bp"
    by (simp_all add: processorInv_def)
  have fresh': "batchRequests bp bid = None"
    using fresh by (simp add: bid_def)
  have nq: "bid \<notin> set (processingQueue bp)"
    using z fresh' by (auto simp: zeroQueued_def)
  have e: "snd (createBatch now suffix userId reqs options bp)
             = (if \<not> isProcessing bp1 then processNextBatch (int now) bp1 else bp1)"
    by (simp add: createBatch_def Let_def addToProcessingQueue_def bid_def [symmetric]
          batch_def [symmetric] bp0_def [symmetric] bp1_def [symmetric])
       (simp add: bp0_def bp1_def)
  have h0: "histOk bp0"
    unfolding bp0_def
    by (rule histOk_batchSet [OF h]) (simp_all add: fresh' batch_def withinCount_def)
  have h1: "histOk bp1"
    using h0 by (simp add: bp1_def)
  have d1: "distinct (processingQueue bp1)"
    using d nq by (simp add: bp1_def bp0_def distinct_insertByPriority)
  have z1: "zeroQueued bp1"
    using z fresh'
    by (auto simp: zeroQueued_def bp1_def bp0_def set_insertByPriority batch_def)
  show ?thesis
  proof (cases "isProcessing bp1")
    case False
    then have "\<not> isProcessing bp"
      by (simp add: bp1_def bp0_def)
    with s have "awaiting bp = None"
      by (rule suspended_awaiting_None)
    then have "awaiting bp1 = None"
      by (simp add: bp1_def bp0_def)
    with h1 d1 z1 have "processorInv (processNextBatch (int now) bp1)"
      by (rule processorInv_processNextBatch)
    with e False show ?thesis by simp
  next
    case True
    have "suspendedOk bp1"
    proof (cases "awaiting bp")
      case None
      then show ?thesis by (simp add: suspendedOk_def bp1_def bp0_def)
    next
      case (Some act)
      with s fresh' have "actBatchId act \<noteq> bid"
        by (auto simp: suspendedOk_def)
      with s Some show ?thesis
        by (auto simp: suspendedOk_def bp1_def bp0_def set_insertByPriority)
    qed
    with h1 d1 z1 have "processorInv bp1"
      by (simp add: processorInv_def)
    with e True show ?thesis by simp
  qed
qed

lemma processorInv_cancelBatch:
  assumes inv: "processorInv bp"
  shows "processorInv (snd (cancelBatch now bid userId bp))"
proof (cases "fst (cancelBatch now bid userId bp)")
  case False
  then have "snd (cancelBatch now bid userId bp) = bp"
    by (auto simp: cancelBatch_def split: option.splits if_splits)
  with inv show ?thesis by simp
next
  case True
  then obtain b where b: "batchRequests bp bid = Some b" and p: "status b = Pending"
    and u: "batchUserId b = userId"
    by (auto simp: cancelBatch_def split: option.splits if_splits)
  define b' where "b' = b\<lparr> status := Failed, batchError := Some ''Batch cancelled by user'',
                            completedAt := Some now \<rparr>"
  define bp' where "bp' = batchSet bid b' (bp\<lparr> processingQueue := remove1 bid (processingQueue bp) \<rparr>)"
  have e: "snd (cancelBatch now bid userId bp) = bp'"
    using b p u by (simp add: cancelBatch_def bp'_def b'_def)
  from inv have h: "histOk bp" and d: "distinct (processingQueue bp)"
    and z: "zeroQueued bp" and s: "suspendedOk bp"
    by (simp_all add: processorInv_def)
  have wb: "withinCount b" "requestCount b = length (requests b)"
    using histOk_stored_within [OF h b] by simp_all
  have h': "histOk bp'"
    unfolding bp'_def
  proof (rule histOk_batchSet)
    show "histOk (bp\<lparr> processingQueue := remove1 bid (processingQueue bp) \<rparr>)"
      using h by simp
  qed (use b wb in \<open>auto simp: b'_def countersLe_def withinCount_def\<close>)
  have d': "distinct (processingQueue bp')"
    using d by (simp add: bp'_def)
  have z': "zeroQueued bp'"
    using z d by (auto simp: zeroQueued_def bp'_def)
  have s': "suspendedOk bp'"
  proof (cases "awaiting bp")
    case None
    then show ?thesis by (simp add: suspendedOk_def bp'_def)
  next
    case (Some act)
    with s b p have "actBatchId act \<noteq> bid"
      by (auto simp: suspendedOk_def)
    with s Some show ?thesis
      by (auto simp: suspendedOk_def bp'_def dest: notin_set_remove1)
  qed
  from h' d' z' s' e show ?thesis
    by (simp add: processorInv_def)
qed

lemma processorInv_intervalTick:
  assumes inv: "processorInv bp"
  shows "processorInv (intervalTick now bp)"
proof (cases "\<not> isProcessing bp \<and> processingQueue bp \<noteq> []")
  case False
  with inv show ?thesis by (auto simp: intervalTick_def)
next
  case True
  from inv have h: "histOk bp" and d: "distinct (processingQueue bp)"
    and z: "zeroQueued bp" and s: "suspendedOk bp"
    by (simp_all add: processorInv_def)
  from s True have "awaiting bp = None"
    by (simp add: suspended_awaiting_None)
  with h d z have "processorInv (processNextBatch now bp)"
    by (rule processorInv_processNextBatch)
  with True show ?thesis by (simp add: intervalTick_def)
qed


lemma hasError_settledResult: "hasError (settledResult s) \<longleftrightarrow> \<not> isFulfilled s"
  by (cases s) (simp_all add: hasError_def settledResult_def isFulfilled_def)

lemma okCount_append_settled:
  "okCount (rs @ map settledResult chunk) = okCount rs + length (filter isFulfilled chunk)"
  by (simp add: okCount_def filter_map o_def hasError_settledResult)

lemma errCount_append_settled:
  "errCount (rs @ map settledResult chunk)
     = errCount rs + length (filter (\<lambda>s. \<not> isFulfilled s) chunk)"
  by (simp add: errCount_def filter_map o_def hasError_settledResult)

text \<open>
  When a chunk has settled, the progress record adds the chunk's outcomes to the stored
  counters, which then again equal the counts over the results pushed; so the terminal
  record, counted from the results alone, carries the same counters.
\<close>

lemma processorInv_chunkSettled:
  assumes inv: "processorInv bp"
    and adm: "admissible (Settle now chunk) bp"
  shows "processorInv (chunkSettled now chunk bp)"
proof -
  from adm obtain act where a: "awaiting bp = Some act"
    and len: "length chunk
                = min maxConcurrentRequests (length (requests (actBatch act)) - actIndex act)"
    by (auto split: option.splits)
  from inv have h: "histOk bp" and d: "distinct (processingQueue bp)"
    and z: "zeroQueued bp" and s: "suspendedOk bp"
    by (simp_all add: processorInv_def)
  define aid where "aid = actBatchId act"
  define n where "n = length (requests (actBatch act))"
  from s a obtain cur where
    p: "isProcessing bp" and nq: "aid \<notin> set (processingQueue bp)"
    and idx: "actIndex act < n" and lr: "length (actResults act) = actIndex act"
    and rc: "requestCount (actBatch act) = n"
    and cur: "batchRequests bp aid = Some cur"
    and cc: "completedCount cur = okCount (actResults act)"
    and cf: "failedCount cur = errCount (actResults act)"
    and st: "status cur = Processing"
    and cr: "requestCount cur = requestCount (actBatch act)"
    by (auto simp: suspendedOk_def aid_def n_def)
  define rs where "rs = actResults act @ map settledResult chunk"
  define cur' where "cur' = cur\<lparr> completedCount := completedCount cur
                                     + length (filter isFulfilled chunk),
                                   failedCount := failedCount cur
                                     + length (filter (\<lambda>s. \<not> isFulfilled s) chunk) \<rparr>"
  define bp1 where "bp1 = batchSet aid cur' bp"
  define i where "i = actIndex act + maxConcurrentRequests"
  have e: "chunkSettled now chunk bp =
             (if i < n then bp1\<lparr> awaiting := Some (act\<lparr> actIndex := i, actResults := rs \<rparr>) \<rparr>
              else processNextBatch now
                     ((completeBatch now aid (actBatch act) rs (bp1\<lparr> awaiting := None \<rparr>))
                        \<lparr> isProcessing := False \<rparr>))"
    using a cur
    by (simp add: chunkSettled_def Let_def aid_def [symmetric] rs_def cur'_def bp1_def i_def n_def)
  have lrs: "length rs = actIndex act + length chunk"
    by (simp add: rs_def lr)
  have lrs_le: "length rs \<le> n"
    using lrs len idx by (simp add: n_def)
  have c'c: "completedCount cur' = okCount rs" and c'f: "failedCount cur' = errCount rs"
    by (simp_all add: cur'_def rs_def cc cf okCount_append_settled errCount_append_settled)
  have wcur: "withinCount cur" "requestCount cur = length (requests cur)"
    using histOk_stored_within [OF h cur] by simp_all
  have h1: "histOk bp1"
    unfolding bp1_def
  proof (rule histOk_batchSet [OF h])
    fix old
    assume "batchRequests bp aid = Some old"
    with cur show "countersLe old cur'"
      by (simp add: countersLe_def cur'_def)
  next
    have "completedCount cur' + failedCount cur' = length rs"
      by (simp add: c'c c'f ok_err_length)
    moreover have "requestCount cur' = n"
      by (simp add: cur'_def cr rc)
    ultimately show "withinCount cur'"
      using lrs_le by (simp add: withinCount_def)
  next
    show "requestCount cur' = length (requests cur')"
      using wcur by (simp add: cur'_def)
  qed
  have z1: "zeroQueued bp1"
    using z nq by (auto simp: zeroQueued_def bp1_def)
  have pq: "processingQueue bp1 = processingQueue bp"
    by (simp add: bp1_def)
  show ?thesis
  proof (cases "i < n")
    case True
    then have "length chunk = maxConcurrentRequests"
      using len by (simp add: i_def n_def)
    then have li: "length rs = i"
      by (simp add: lrs i_def)
    let ?next = "bp1\<lparr> awaiting := Some (act\<lparr> actIndex := i, actResults := rs \<rparr>) \<rparr>"
    have zn: "zeroQueued ?next"
      using z1 by (simp add: zeroQueued_def)
    have sn: "suspendedOk ?next"
      using p nq True li rc c'c c'f st cr
      by (simp add: suspendedOk_def bp1_def cur'_def aid_def n_def)
    have "processorInv ?next"
      using h1 d zn sn by (simp add: processorInv_def bp1_def)
    with e True show ?thesis by simp
  next
    case False
    let ?done = "(completeBatch now aid (actBatch act) rs (bp1\<lparr> awaiting := None \<rparr>))
                   \<lparr> isProcessing := False \<rparr>"
    have "histOk (batchSet aid (completedRecord now (actBatch act) rs) bp1)"
    proof (rule histOk_batchSet [OF h1])
      fix old
      assume "batchRequests bp1 aid = Some old"
      then have "old = cur'"
        by (simp add: bp1_def)
      then show "countersLe old (completedRecord now (actBatch act) rs)"
        by (simp add: countersLe_def c'c c'f)
    next
      show "withinCount (completedRecord now (actBatch act) rs)"
        using lrs_le by (simp add: withinCount_def ok_err_length rc)
    next
      show "requestCount (completedRecord now (actBatch act) rs)
              = length (requests (completedRecord now (actBatch act) rs))"
        by (simp add: rc n_def)
    qed
    then have hd: "histOk ?done"
      by (simp add: histOk_completeBatch histOk_cong [of "bp1\<lparr> awaiting := None \<rparr>" bp1]
            histOk_def history_def)
    have dd: "distinct (processingQueue ?done)"
      using d by (simp add: bp1_def)
    have zd: "zeroQueued ?done"
      using z1 nq pq by (auto simp: zeroQueued_def)
    have ad: "awaiting ?done = None"
      by simp
    from hd dd zd ad have "processorInv (processNextBatch now ?done)"
      by (rule processorInv_processNextBatch)
    with e False show ?thesis by simp
  qed
qed


lemma processorInv_initial: "processorInv initialProcessor"
  by (simp add: processorInv_def histOk_def history_def zeroQueued_def suspendedOk_def
        initialProcessor_def)

lemma processorInv_perform:
  "processorInv bp \<Longrightarrow> admissible ev bp \<Longrightarrow> processorInv (perform ev bp)"
proof (cases ev)
  case (Create now suffix userId reqs options)
  assume "processorInv bp" "admissible ev bp"
  with Create show ?thesis by (simp add: processorInv_createBatch)
next
  case (Cancel now bid userId)
  assume "processorInv bp"
  with Cancel show ?thesis by (simp add: processorInv_cancelBatch)
next
  case (Tick now)
  assume "processorInv bp"
  with Tick show ?thesis by (simp add: processorInv_intervalTick)
next
  case (Settle now chunk)
  assume "processorInv bp" "admissible ev bp"
  with Settle show ?thesis by (simp add: processorInv_chunkSettled del: admissible.simps)
qed

lemma processorInv_runEvents:
  "processorInv bp \<Longrightarrow> runEvents evs bp = Some bp' \<Longrightarrow> processorInv bp'"
proof (induction evs arbitrary: bp)
  case Nil
  then show ?case by simp
next
  case (Cons ev evs)
  from Cons.prems(2) have adm: "admissible ev bp"
    and run: "runEvents evs (perform ev bp) = Some bp'"
    by (simp_all split: if_splits del: admissible.simps perform.simps)
  from Cons.prems(1) adm have "processorInv (perform ev bp)"
    by (rule processorInv_perform)
  then show ?case
    using run by (rule Cons.IH)
qed

lemma processNextBatch_writes: "\<exists>ws. writes (processNextBatch now bp) = writes bp @ ws"
proof (induction now bp rule: processNextBatch.induct)
  case (1 now bp)
  show ?case
  proof (cases "processingQueue bp")
    case Nil
    then show ?thesis by (subst processNextBatch.simps) simp
  next
    case (Cons bid rest)
    show ?thesis
    proof (cases "bid = []")
      case True
      with Cons show ?thesis by (subst processNextBatch.simps) simp
    next
      case False
      show ?thesis
      proof (cases "batchRequests bp bid")
        case None
        with "1.IH"(1) [OF Cons False None] Cons False show ?thesis
          by (subst processNextBatch.simps) simp
      next
        case (Some batch)
        show ?thesis
        proof (cases "requests batch = []")
          case True
          with "1.IH"(2) [OF Cons False Some True] Cons False Some show ?thesis
            by (subst processNextBatch.simps) auto
        next
          case nonempty: False
          with Cons False Some show ?thesis
            by (subst processNextBatch.simps) simp
        qed
      qed
    qed
  qed
qed

lemma processNextBatch_extends:
  assumes "writes bp1 = writes bp @ ws0"
  shows "\<exists>ws. writes (processNextBatch now bp1) = writes bp @ ws"
  using processNextBatch_writes [of now bp1] assms by auto

lemma perform_writes: "\<exists>ws. writes (perform ev bp) = writes bp @ ws"
proof (cases ev)
  case (Create now suffix userId reqs options)
  then show ?thesis
    by (auto simp: createBatch_def Let_def addToProcessingQueue_def
          intro!: processNextBatch_extends)
next
  case (Cancel now bid userId)
  then show ?thesis
    by (auto simp: cancelBatch_def split: option.splits)
next
  case (Tick now)
  then show ?thesis
    by (auto simp: intervalTick_def intro!: processNextBatch_extends)
next
  case (Settle now chunk)
  then show ?thesis
    by (auto simp: chunkSettled_def Let_def failBatch_def split: option.splits
          intro!: processNextBatch_extends)
qed

text \<open>
  C8: in every state the processor reaches from its initial state through creations
  (with new ids), cancellations, interval ticks and settled chunks, and for every batch
  id: each record ever written for that id (at creation, at pick-up, after each chunk,
  at the end) has \<open>completedCount + failedCount \<le> requestCount\<close>; of two records
  written for the id, the later has counters at least those of the earlier; the record
  stored is the one written last, so it is within the request count too; and a further
  event never lowers a counter of the stored batch.
\<close>

theorem batch_counters:
  assumes "runEvents evs initialProcessor = Some bp"
  shows "(\<forall>b \<in> set (history bp bid). completedCount b + failedCount b \<le> requestCount b)
       \<and> (\<forall>j k. j < k \<and> k < length (history bp bid)
             \<longrightarrow> completedCount (history bp bid ! j) \<le> completedCount (history bp bid ! k)
                 \<and> failedCount (history bp bid ! j) \<le> failedCount (history bp bid ! k))
       \<and> batchRequests bp bid
           = (if history bp bid = [] then None else Some (last (history bp bid)))
       \<and> (\<forall>b. batchRequests bp bid = Some b
             \<longrightarrow> completedCount b + failedCount b \<le> requestCount b)
       \<and> (admissible ev bp
            \<longrightarrow> (\<forall>b. batchRequests bp bid = Some b
                   \<longrightarrow> (\<exists>b'. batchRequests (perform ev bp) bid = Some b'
                          \<and> completedCount b \<le> completedCount b'
                          \<and> failedCount b \<le> failedCount b')))"
proof -
  have inv: "processorInv bp"
    using processorInv_initial assms by (rule processorInv_runEvents)
  then have h: "histOk bp"
    by (simp add: processorInv_def)
  have c1: "\<forall>b \<in> set (history bp bid). completedCount b + failedCount b \<le> requestCount b"
    using h by (auto simp: histOk_def history_def withinCount_def)
  have srt: "sorted_wrt countersLe (history bp bid)"
    using h by (simp add: histOk_def)
  then have c2: "\<forall>j k. j < k \<and> k < length (history bp bid)
             \<longrightarrow> completedCount (history bp bid ! j) \<le> completedCount (history bp bid ! k)
                 \<and> failedCount (history bp bid ! j) \<le> failedCount (history bp bid ! k)"
    by (auto simp: sorted_wrt_iff_nth_less countersLe_def)
  have c3: "batchRequests bp bid
           = (if history bp bid = [] then None else Some (last (history bp bid)))"
    using h by (simp add: histOk_def)
  have c4: "\<forall>b. batchRequests bp bid = Some b
             \<longrightarrow> completedCount b + failedCount b \<le> requestCount b"
    using histOk_stored_within(1) [OF h] by (auto simp: withinCount_def)
  have c5: "admissible ev bp
            \<longrightarrow> (\<forall>b. batchRequests bp bid = Some b
                   \<longrightarrow> (\<exists>b'. batchRequests (perform ev bp) bid = Some b'
                          \<and> completedCount b \<le> completedCount b'
                          \<and> failedCount b \<le> failedCount b'))"
  proof (intro impI allI)
    fix b
    assume adm: "admissible ev bp" and b: "batchRequests bp bid = Some b"
    from inv adm have "processorInv (perform ev bp)"
      by (rule processorInv_perform)
    then have h': "histOk (perform ev bp)"
      by (simp add: processorInv_def)
    from perform_writes obtain ws where "writes (perform ev bp) = writes bp @ ws"
      by blast
    then have ext: "history (perform ev bp) bid
                      = history bp bid @ map snd (filter (\<lambda>w. fst w = bid) ws)"
      by (simp add: history_def)
    from b c3 have ne: "history bp bid \<noteq> []" and l: "b = last (history bp bid)"
      by (auto split: if_splits)
    then have mem: "b \<in> set (history (perform ev bp) bid)"
      by (simp add: ext)
    then have ne': "history (perform ev bp) bid \<noteq> []"
      by auto
    with h' have st: "batchRequests (perform ev bp) bid
                        = Some (last (history (perform ev bp) bid))"
      by (simp add: histOk_def)
    have "sorted_wrt countersLe (history (perform ev bp) bid)"
      using h' by (simp add: histOk_def)
    then have "countersLe b (last (history (perform ev bp) bid))"
      using mem by (rule sorted_wrt_last)
    with st show "\<exists>b'. batchRequests (perform ev bp) bid = Some b'
                          \<and> completedCount b \<le> completedCount b'
                          \<and> failedCount b \<le> failedCount b'"
      by (simp add: countersLe_def)
  qed
  from c1 c2 c3 c4 c5 show ?thesis
    by blast
qed

theorem batch_counters_witness:
  "runEvents twoBatchesEvents initialProcessor = Some twoBatches
   \<and> history twoBatches firstId = [firstBatch, firstBatch\<lparr> status := Processing \<rparr>]
   \<and> batchRequests twoBatches firstId = Some (firstBatch\<lparr> status := Processing \<rparr>)
   \<and> admissible (Settle 2000 [Fulfilled helloResponse]) twoBatches
   \<and> completedCount firstBatch + failedCount firstBatch \<le> requestCount firstBatch
   \<and> completedCount firstBatch \<le> completedCount (firstBatch\<lparr> status := Processing \<rparr>)
   \<and> (\<exists>b'. batchRequests (perform (Settle 2000 [Fulfilled helloResponse]) twoBatches) firstId
              = Some b'
          \<and> completedCount (firstBatch\<lparr> status := Processing \<rparr>) \<le> completedCount b'
          \<and> failedCount (firstBatch\<lparr> status := Processing \<rparr>) \<le> failedCount b')"
proof -
  have hist: "history twoBatches firstId = [firstBatch, firstBatch\<lparr> status := Processing \<rparr>]"
    by (simp add: history_def twoBatches_def sample_ids_ne)
  have st: "batchRequests twoBatches firstId = Some (firstBatch\<lparr> status := Processing \<rparr>)"
    by (simp add: twoBatches_def sample_ids_ne)
  have adm: "admissible (Settle 2000 [Fulfilled helloResponse]) twoBatches"
    by (simp add: twoBatches_def firstBatch_def maxConcurrentRequests_def)
  note t = batch_counters [OF run_twoBatches, where bid = firstId
                             and ev = "Settle 2000 [Fulfilled helloResponse]"]
  from t hist have w1: "completedCount firstBatch + failedCount firstBatch
                          \<le> requestCount firstBatch"
    by simp
  from t hist have w2: "completedCount firstBatch
                          \<le> completedCount (firstBatch\<lparr> status := Processing \<rparr>)"
    by simp
  from t st adm
  have w3: "\<exists>b'. batchRequests (perform (Settle 2000 [Fulfilled helloResponse]) twoBatches)
                    firstId = Some b'
          \<and> completedCount (firstBatch\<lparr> status := Processing \<rparr>) \<le> completedCount b'
          \<and> failedCount (firstBatch\<lparr> status := Processing \<rparr>) \<le> failedCount b'"
    by blast
  from run_twoBatches hist st adm w1 w2 w3 show ?thesis
    by blast
qed


end
